theory Spec2Isabelle
  imports Main "HOL-Library.Word" "HOL-Library.AList"
begin

section \<open>llamaparse.go: data model\<close>

text \<open>
  The package has one exported operation, \<open>Parse\<close>, and two helpers,
  \<open>createMultipartRequest\<close> and \<open>getJobResult\<close>. Everything else it touches is the Go
  standard library (\<open>net/http\<close>, \<open>net/url\<close>, \<open>encoding/json\<close>, \<open>mime/multipart\<close>,
  \<open>os\<close>, \<open>time\<close>) and the remote service. The library and the service are the
  environment of the model: what they answer is a parameter, what the package does with
  the answer is translated from the source line by line.
\<close>

type_synonym bytes = "8 word list"

text \<open>\<open>type LlamaParseMode string\<close> with its three constants.\<close>

type_synonym LlamaParseMode = string

definition MARKDOWN :: LlamaParseMode where "MARKDOWN = ''markdown''"
definition TEXT :: LlamaParseMode where "TEXT = ''text''"
definition JSON :: LlamaParseMode where "JSON = ''json''"

definition BASE_URL :: string where
  "BASE_URL = ''https://api.cloud.llamaindex.ai''"

text \<open>Go's \<open>int\<close> on a 64-bit platform; \<open>time.Duration\<close> is an \<open>int64\<close> of nanoseconds.\<close>

type_synonym go_int = "64 word"
type_synonym Duration = "64 word"

definition DEFAULT_MAX_TIMEOUT_SECONDS :: go_int where
  "DEFAULT_MAX_TIMEOUT_SECONDS = 2000"

definition DEFAULT_CHECK_INTERVAL_SECONDS :: go_int where
  "DEFAULT_CHECK_INTERVAL_SECONDS = 1"

definition Second :: Duration where
  "Second = 1000000000"

text \<open>
  The four sentinel errors of the package, and the errors that come out of the library and
  are handed on unchanged: each of those keeps the library's message.
\<close>

datatype error =
    ErrNoAPIKey
  | ErrEmptyFile
  | ErrParsingFailed
  | ErrTimeoutReached
  | MultipartError string
  | RequestError string
  | TransportError string
  | DecodeError string

text \<open>
  A JSON value as \<open>encoding/json\<close> stores it in an \<open>interface{}\<close>. A number is kept as
  its literal: the package never looks inside one.
\<close>

datatype json =
    JNull
  | JBool bool
  | JNumber string
  | JString string
  | JArray "json list"
  | JObject "(string \<times> json) list"

text \<open>
  A response body is either a byte sequence that the JSON decoder rejects (with the
  decoder's message) or the JSON value that it reads.
\<close>

datatype body = NotJson string | JsonText json

record response =
  StatusCode :: int
  Body :: body

text \<open>The multipart form that \<open>createMultipartRequest\<close> writes, part by part.\<close>

datatype form_part =
    FormFile string string bytes
  | FormField string string

record request =
  Method :: string
  URL :: string
  Header :: "(string \<times> string) list"
  Form :: "form_part list"

text \<open>
  One call of \<open>client.Do\<close>: when it was made, the \<open>Timeout\<close> of the client that made
  it, and the request.
\<close>

record exchange =
  sent_at :: int
  client_timeout :: Duration
  req :: request

text \<open>
  The environment: the process environment (\<open>os.Getenv\<close> gives the empty string for an
  unset variable), the boundary that \<open>multipart.NewWriter\<close> draws, the verdict of
  \<open>net/url\<close> on a URL (\<open>None\<close> when it parses), and the network. The network sees the
  exchanges made so far and the new one, and answers with the time the round trip takes
  (in nanoseconds) and either a transport error or a response.
\<close>

record env =
  getenv :: "string \<Rightarrow> string"
  boundary :: string
  url_error :: "string \<Rightarrow> string option"
  network :: "exchange list \<Rightarrow> exchange \<Rightarrow> nat \<times> (string + response)"

text \<open>The state: the monotonic clock (nanoseconds) and the exchanges made so far.\<close>

record world =
  now :: int
  sent :: "exchange list"

section \<open>The standard library, as the package uses it\<close>

definition maxDuration :: int where "maxDuration = 2 ^ 63 - 1"
definition minDuration :: int where "minDuration = - (2 ^ 63)"

text \<open>\<open>time.Since(start)\<close>: the difference of two clock readings, saturating.\<close>

definition time_Since :: "int \<Rightarrow> world \<Rightarrow> int" where
  "time_Since start w =
     (let d = now w - start
      in if maxDuration < d then maxDuration
         else if d < minDuration then minDuration
         else d)"

text \<open>\<open>time.Sleep(d)\<close>: returns at once when \<open>d\<close> is zero or negative.\<close>

definition time_Sleep :: "Duration \<Rightarrow> world \<Rightarrow> world" where
  "time_Sleep d w = w\<lparr>now := now w + max 0 (sint d)\<rparr>"

text \<open>\<open>http.NewRequest\<close> with a valid method: fails when the URL does not parse.\<close>

definition http_NewRequest ::
  "env \<Rightarrow> string \<Rightarrow> string \<Rightarrow> form_part list \<Rightarrow> error + request" where
  "http_NewRequest e method url form =
     (case url_error e url of
        Some msg \<Rightarrow> Inl (RequestError msg)
      | None \<Rightarrow> Inr \<lparr>Method = method, URL = url, Header = [], Form = form\<rparr>)"

text \<open>\<open>req.Header.Set(key, value)\<close>: replaces the values of the key.\<close>

definition Header_Set :: "string \<Rightarrow> string \<Rightarrow> request \<Rightarrow> request" where
  "Header_Set key v r = r\<lparr>Header := AList.update key v (Header r)\<rparr>"

text \<open>\<open>for key, value := range headers { req.Header.Set(key, value) }\<close>\<close>

fun set_headers :: "(string \<times> string) list \<Rightarrow> request \<Rightarrow> request" where
  "set_headers [] r = r"
| "set_headers ((key, v) # hs) r = set_headers hs (Header_Set key v r)"

text \<open>
  \<open>client.Do(req)\<close>: the exchange is recorded, the clock moves by the round trip, and
  the network's answer is the result.
\<close>

definition client_Do ::
  "env \<Rightarrow> Duration \<Rightarrow> request \<Rightarrow> world \<Rightarrow> (error + response) \<times> world" where
  "client_Do e tmo r w =
     (let x = \<lparr>sent_at = now w, client_timeout = tmo, req = r\<rparr>;
          (d, answer) = network e (sent w) x;
          w' = w\<lparr>now := now w + int d, sent := sent w @ [x]\<rparr>
      in case answer of
           Inl msg \<Rightarrow> (Inl (TransportError msg), w')
         | Inr resp \<Rightarrow> (Inr resp, w'))"

text \<open>
  \<open>json.NewDecoder(resp.Body).Decode(&m)\<close> for \<open>m\<close> a \<open>map[string]interface{}\<close>: an
  object fills the map (a repeated key keeps its last value), \<open>null\<close> leaves the map nil,
  any other value is a type error, and a body that is not JSON is a syntax error.
\<close>

fun Decode :: "body \<Rightarrow> error + (string \<rightharpoonup> json)" where
  "Decode (NotJson msg) = Inl (DecodeError msg)"
| "Decode (JsonText (JObject kvs)) = Inr (map_of (rev kvs))"
| "Decode (JsonText JNull) = Inr Map.empty"
| "Decode (JsonText v) =
     Inl (DecodeError ''json: cannot unmarshal into Go value of type map[string]interface {}'')"

text \<open>
  \<open>v, ok := m[key].(string)\<close>: the comma-ok type assertion; a missing key reads as nil,
  and the zero string comes with \<open>ok = false\<close>.
\<close>

fun string_assert :: "json option \<Rightarrow> string \<times> bool" where
  "string_assert (Some (JString s)) = (s, True)"
| "string_assert v = ('''', False)"

section \<open>createMultipartRequest\<close>

text \<open>
  The writer writes into a \<open>bytes.Buffer\<close>, whose writes do not fail, so every error
  branch of the source is dead and the function returns the body and its content type.
\<close>

definition createMultipartRequest ::
  "env \<Rightarrow> bytes \<Rightarrow> string option \<Rightarrow> error + (form_part list \<times> string)" where
  "createMultipartRequest e file language =
     (let part = [FormFile ''file'' ''uploadfile'' file];
          fields = (case language of
                      None \<Rightarrow> part
                    | Some l \<Rightarrow> part @ [FormField ''language'' l]);
          contentType = ''multipart/form-data; boundary='' @ boundary e
      in Inr (fields, contentType))"

section \<open>getJobResult\<close>

text \<open>What one pass of the \<open>for\<close> loop does: \<open>continue\<close>, or \<open>return\<close>.\<close>

datatype pass = Continue world | Return "error + string" world

text \<open>Lines 111 to 140: the result request, once the status is \<open>SUCCESS\<close>.\<close>

definition fetch_result ::
  "env \<Rightarrow> Duration \<Rightarrow> (string \<times> string) list \<Rightarrow> string \<Rightarrow> LlamaParseMode \<Rightarrow> world \<Rightarrow> pass" where
  "fetch_result e timeout headers resultURL mode w =
     (case http_NewRequest e ''GET'' resultURL [] of
        Inl err \<Rightarrow> Return (Inl err) w
      | Inr r \<Rightarrow>
          (case client_Do e timeout (set_headers headers r) w of
             (Inl err, w') \<Rightarrow> Return (Inl err) w'
           | (Inr resp, w') \<Rightarrow>
               if StatusCode resp \<noteq> 200 then Return (Inl ErrParsingFailed) w'
               else
                 (case Decode (Body resp) of
                    Inl err \<Rightarrow> Return (Inl err) w'
                  | Inr resultResponse \<Rightarrow>
                      (let (result, ok) = string_assert (resultResponse mode)
                       in if \<not> ok then Return (Inl ErrParsingFailed) w'
                          else Return (Inr result) w'))))"

text \<open>Lines 76 to 109, then \<open>fetch_result\<close>: one pass of the loop.\<close>

definition poll_pass ::
  "env \<Rightarrow> Duration \<Rightarrow> (string \<times> string) list \<Rightarrow> string \<Rightarrow> string \<Rightarrow> LlamaParseMode \<Rightarrow>
   Duration \<Rightarrow> int \<Rightarrow> world \<Rightarrow> pass" where
  "poll_pass e timeout headers statusURL resultURL mode checkInterval start w =
     (if sint timeout < time_Since start w then Return (Inl ErrTimeoutReached) w
      else
        (let w1 = time_Sleep checkInterval w
         in case http_NewRequest e ''GET'' statusURL [] of
              Inl err \<Rightarrow> Return (Inl err) w1
            | Inr r \<Rightarrow>
                (case client_Do e timeout (set_headers headers r) w1 of
                   (Inl err, w2) \<Rightarrow> Return (Inl err) w2
                 | (Inr resp, w2) \<Rightarrow>
                     if StatusCode resp \<noteq> 200 then Continue w2
                     else
                       (case Decode (Body resp) of
                          Inl err \<Rightarrow> Return (Inl err) w2
                        | Inr statusResponse \<Rightarrow>
                            (let (status, ok) = string_assert (statusResponse ''status'')
                             in if \<not> ok \<or> status \<noteq> ''SUCCESS'' then Continue w2
                                else fetch_result e timeout headers resultURL mode w2)))))"

text \<open>
  The loop has no bound of its own: with a poll interval of zero and a network that
  answers in no time the clock never moves. Not returning is the value \<open>None\<close>.
\<close>

partial_function (option) poll_loop ::
  "env \<Rightarrow> Duration \<Rightarrow> (string \<times> string) list \<Rightarrow> string \<Rightarrow> string \<Rightarrow> LlamaParseMode \<Rightarrow>
   Duration \<Rightarrow> int \<Rightarrow> world \<Rightarrow> ((error + string) \<times> world) option" where
  "poll_loop e timeout headers statusURL resultURL mode checkInterval start w =
     (case poll_pass e timeout headers statusURL resultURL mode checkInterval start w of
        Continue w' \<Rightarrow>
          poll_loop e timeout headers statusURL resultURL mode checkInterval start w'
      | Return r w' \<Rightarrow> Some (r, w'))"

declare poll_loop.simps [code]

definition getJobResult ::
  "env \<Rightarrow> string \<Rightarrow> string \<Rightarrow> string \<Rightarrow> LlamaParseMode \<Rightarrow> Duration \<Rightarrow> Duration \<Rightarrow> world \<Rightarrow>
   ((error + string) \<times> world) option" where
  "getJobResult e apiKey baseUrl jobID mode timeout checkInterval w =
     (let headers = [(''Authorization'', ''Bearer '' @ apiKey)];
          statusURL = baseUrl @ ''/api/parsing/job/'' @ jobID;
          resultURL = baseUrl @ ''/api/parsing/job/'' @ jobID @ ''/result/'' @ mode;
          start = now w
      in poll_loop e timeout headers statusURL resultURL mode checkInterval start w)"

section \<open>Parse\<close>

text \<open>Lines 165 to 174: the explicit key, else the environment's, which must not be empty.\<close>

definition resolve_apiKey :: "env \<Rightarrow> string option \<Rightarrow> error + string" where
  "resolve_apiKey e apiKeyOptional =
     (case apiKeyOptional of
        Some k \<Rightarrow> Inr k
      | None \<Rightarrow>
          (let apiKey = getenv e ''LLAMA_CLOUD_API_KEY''
           in if apiKey = '''' then Inl ErrNoAPIKey else Inr apiKey))"

text \<open>Lines 191 to 198 and 222 to 227.\<close>

definition resolve_timeoutSeconds :: "go_int option \<Rightarrow> go_int" where
  "resolve_timeoutSeconds timeoutSecondsOptional =
     (case timeoutSecondsOptional of
        Some t \<Rightarrow> t
      | None \<Rightarrow> DEFAULT_MAX_TIMEOUT_SECONDS)"

definition resolve_checkIntervalSeconds :: "go_int option \<Rightarrow> go_int" where
  "resolve_checkIntervalSeconds checkIntervalSecondsOptional =
     (case checkIntervalSecondsOptional of
        Some c \<Rightarrow> c
      | None \<Rightarrow> DEFAULT_CHECK_INTERVAL_SECONDS)"

definition Parse ::
  "env \<Rightarrow> bytes \<Rightarrow> LlamaParseMode \<Rightarrow> string option \<Rightarrow> string option \<Rightarrow>
   go_int option \<Rightarrow> go_int option \<Rightarrow> world \<Rightarrow> ((error + string) \<times> world) option" where
  "Parse e file mode apiKeyOptional languageOptional timeoutSecondsOptional
         checkIntervalSecondsOptional w =
     (if length file = 0 then Some (Inl ErrEmptyFile, w)
      else
        (case resolve_apiKey e apiKeyOptional of
           Inl err \<Rightarrow> Some (Inl err, w)
         | Inr apiKey \<Rightarrow>
             (let url = BASE_URL @ ''/api/parsing/upload''
              in case createMultipartRequest e file languageOptional of
                   Inl err \<Rightarrow> Some (Inl err, w)
                 | Inr (form, contentType) \<Rightarrow>
                     (case http_NewRequest e ''POST'' url form of
                        Inl err \<Rightarrow> Some (Inl err, w)
                      | Inr r0 \<Rightarrow>
                          (let r1 = Header_Set ''Authorization'' (''Bearer '' @ apiKey) r0;
                               r2 = Header_Set ''Content-Type'' contentType r1;
                               timeoutSeconds = resolve_timeoutSeconds timeoutSecondsOptional
                           in case client_Do e (timeoutSeconds * Second) r2 w of
                                (Inl err, w') \<Rightarrow> Some (Inl err, w')
                              | (Inr resp, w') \<Rightarrow>
                                  if StatusCode resp \<noteq> 200 then Some (Inl ErrParsingFailed, w')
                                  else
                                    (case Decode (Body resp) of
                                       Inl err \<Rightarrow> Some (Inl err, w')
                                     | Inr response \<Rightarrow>
                                         (let (jobID, ok) = string_assert (response ''id'')
                                          in if \<not> ok then Some (Inl ErrParsingFailed, w')
                                             else
                                               (let checkIntervalSeconds =
                                                      resolve_checkIntervalSeconds
                                                        checkIntervalSecondsOptional
                                                in getJobResult e apiKey BASE_URL jobID mode
                                                     (timeoutSeconds * Second)
                                                     (checkIntervalSeconds * Second) w'))))))))"

section \<open>The exchanges of a run\<close>

text \<open>
  Names for the requests that the source builds, so that the theorems can say which
  exchange was made and when. A \<open>GET\<close> request carries the headers of \<open>getJobResult\<close>;
  a status request of a pass goes out after the sleep of that pass; the result request goes
  out at once; the upload is the \<open>POST\<close> of \<open>Parse\<close>.
\<close>

definition get_request :: "(string \<times> string) list \<Rightarrow> string \<Rightarrow> request" where
  "get_request headers url =
     set_headers headers \<lparr>Method = ''GET'', URL = url, Header = [], Form = []\<rparr>"

definition status_exchange ::
  "Duration \<Rightarrow> (string \<times> string) list \<Rightarrow> string \<Rightarrow> Duration \<Rightarrow> world \<Rightarrow> exchange" where
  "status_exchange timeout headers statusURL checkInterval w =
     \<lparr>sent_at = now w + max 0 (sint checkInterval), client_timeout = timeout,
      req = get_request headers statusURL\<rparr>"

definition result_exchange ::
  "Duration \<Rightarrow> (string \<times> string) list \<Rightarrow> string \<Rightarrow> world \<Rightarrow> exchange" where
  "result_exchange timeout headers resultURL w =
     \<lparr>sent_at = now w, client_timeout = timeout, req = get_request headers resultURL\<rparr>"

definition upload_exchange ::
  "env \<Rightarrow> bytes \<Rightarrow> string option \<Rightarrow> string \<Rightarrow> go_int \<Rightarrow> world \<Rightarrow> exchange" where
  "upload_exchange e file language apiKey timeoutSeconds w =
     \<lparr>sent_at = now w,
      client_timeout = timeoutSeconds * Second,
      req = \<lparr>Method = ''POST'',
             URL = BASE_URL @ ''/api/parsing/upload'',
             Header = [(''Authorization'', ''Bearer '' @ apiKey),
                       (''Content-Type'', ''multipart/form-data; boundary='' @ boundary e)],
             Form = (case language of
                       None \<Rightarrow> [FormFile ''file'' ''uploadfile'' file]
                     | Some l \<Rightarrow> [FormFile ''file'' ''uploadfile'' file, FormField ''language'' l])\<rparr>\<rparr>"

text \<open>The world once exchange \<open>x\<close> has been answered after \<open>d\<close> nanoseconds.\<close>

definition answered :: "world \<Rightarrow> exchange \<Rightarrow> nat \<Rightarrow> world" where
  "answered w x d = w\<lparr>now := sent_at x + int d, sent := sent w @ [x]\<rparr>"

text \<open>The headers and the two URLs that \<open>getJobResult\<close> computes before its loop.\<close>

definition job_headers :: "string \<Rightarrow> (string \<times> string) list" where
  "job_headers apiKey = [(''Authorization'', ''Bearer '' @ apiKey)]"

definition job_statusURL :: "string \<Rightarrow> string \<Rightarrow> string" where
  "job_statusURL baseUrl jobID = baseUrl @ ''/api/parsing/job/'' @ jobID"

definition job_resultURL :: "string \<Rightarrow> string \<Rightarrow> LlamaParseMode \<Rightarrow> string" where
  "job_resultURL baseUrl jobID mode =
     baseUrl @ ''/api/parsing/job/'' @ jobID @ ''/result/'' @ mode"

text \<open>The world in which a pass ends.\<close>

fun pass_world :: "pass \<Rightarrow> world" where
  "pass_world (Continue w) = w"
| "pass_world (Return r w) = w"

section \<open>Scripted environments\<close>

text \<open>
  A network that answers the \<open>n\<close>-th exchange with the \<open>n\<close>-th entry of a script and
  refuses every later one; an environment around it in which every URL parses; the world
  at time zero.
\<close>

definition scripted ::
  "(nat \<times> (string + response)) list \<Rightarrow> exchange list \<Rightarrow> exchange \<Rightarrow> nat \<times> (string + response)" where
  "scripted script history x =
     (if length history < length script then script ! length history
      else (0, Inl ''connection refused''))"

definition scripted_env :: "string \<Rightarrow> (nat \<times> (string + response)) list \<Rightarrow> env" where
  "scripted_env key script =
     \<lparr>getenv = (\<lambda>name. if name = ''LLAMA_CLOUD_API_KEY'' then key else ''''),
      boundary = ''boundary0'',
      url_error = (\<lambda>u. None),
      network = scripted script\<rparr>"

definition world0 :: world where "world0 = \<lparr>now = 0, sent = []\<rparr>"

definition answer_ok :: "json \<Rightarrow> string + response" where
  "answer_ok j = Inr \<lparr>StatusCode = 200, Body = JsonText j\<rparr>"

definition answer_code :: "int \<Rightarrow> string + response" where
  "answer_code c = Inr \<lparr>StatusCode = c, Body = NotJson ''unexpected end of JSON input''\<rparr>"

definition answer_text :: "string \<Rightarrow> string + response" where
  "answer_text msg = Inr \<lparr>StatusCode = 200, Body = NotJson msg\<rparr>"

section \<open>Results and logs\<close>

text \<open>
  The results that only the two input checks of \<open>Parse\<close> produce are set apart from
  every other result.
\<close>

definition internal :: "error + string \<Rightarrow> bool" where
  "internal r \<longleftrightarrow> r \<noteq> Inl ErrNoAPIKey \<and> r \<noteq> Inl ErrEmptyFile"

text \<open>
  An exchange of \<open>getJobResult\<close>: its request is the status request or the result
  request. A log of such exchanges leads from world \<open>w\<close> to world \<open>v\<close>.
\<close>

definition job_exchange :: "(string \<times> string) list \<Rightarrow> string \<Rightarrow> string \<Rightarrow> exchange \<Rightarrow> bool" where
  "job_exchange headers statusURL resultURL x \<longleftrightarrow>
     req x = get_request headers statusURL \<or> req x = get_request headers resultURL"

definition job_log ::
  "(string \<times> string) list \<Rightarrow> string \<Rightarrow> string \<Rightarrow> world \<Rightarrow> world \<Rightarrow> bool" where
  "job_log headers statusURL resultURL w v \<longleftrightarrow>
     (\<exists>xs. sent v = sent w @ xs \<and> list_all (job_exchange headers statusURL resultURL) xs)"

text \<open>The exchange carries the key as its bearer credential.\<close>

definition bearer :: "string \<Rightarrow> exchange \<Rightarrow> bool" where
  "bearer apiKey x \<longleftrightarrow>
     map_of (Header (req x)) ''Authorization'' = Some (''Bearer '' @ apiKey)"

section \<open>Scripts\<close>

text \<open>A service on which the job never leaves the state \<open>PENDING\<close>.\<close>

definition pending_env :: env where
  "pending_env =
     \<lparr>getenv = (\<lambda>name. ''''),
      boundary = ''boundary0'',
      url_error = (\<lambda>u. None),
      network = (\<lambda>history x. (7, answer_ok (JObject [(''status'', JString ''PENDING'')])))\<rparr>"

text \<open>
  Scripts for a whole run of \<open>Parse\<close>: the upload, then the status checks, then the
  result. In the first the body of a status answer is not JSON, and the later answers would
  have completed the job; in the second the body of the upload answer is not JSON; in the
  third the body of the result answer is a JSON array.
\<close>

definition script_bad_status :: "(nat \<times> (string + response)) list" where
  "script_bad_status =
     [(3, answer_ok (JObject [(''id'', JString ''job1'')])),
      (7, answer_text ''invalid character'')]
     @ [(7, answer_ok (JObject [(''status'', JString ''SUCCESS'')])),
        (9, answer_ok (JObject [(''markdown'', JString ''hello'')]))]"

definition script_bad_upload :: "(nat \<times> (string + response)) list" where
  "script_bad_upload = [(3, answer_text ''invalid character'')]"

definition script_bad_result :: "(nat \<times> (string + response)) list" where
  "script_bad_result =
     [(3, answer_ok (JObject [(''id'', JString ''job1'')])),
      (7, answer_ok (JObject [(''status'', JString ''SUCCESS'')])),
      (9, answer_ok (JArray [JString ''hello'']))]"

section \<open>Unfolding the stages\<close>

text \<open>
  Each stage, rewritten by the answer of the network to its one exchange.
\<close>

lemma client_Do_answer:
  assumes "network e (sent w) \<lparr>sent_at = now w, client_timeout = tmo, req = r\<rparr> = (d, answer)"
  shows "client_Do e tmo r w =
     (case answer of Inl msg \<Rightarrow> Inl (TransportError msg) | Inr resp \<Rightarrow> Inr resp,
      answered w \<lparr>sent_at = now w, client_timeout = tmo, req = r\<rparr> d)"
  using assms by (simp add: client_Do_def answered_def split: sum.splits)

lemma Parse_upload_Do:
  assumes "file \<noteq> []" and "resolve_apiKey e k = Inr apiKey"
    and "url_error e (BASE_URL @ ''/api/parsing/upload'') = None"
  shows "Parse e file mode k l t c w =
     (case client_Do e (resolve_timeoutSeconds t * Second)
             (req (upload_exchange e file l apiKey (resolve_timeoutSeconds t) w)) w of
        (Inl err, w') \<Rightarrow> Some (Inl err, w')
      | (Inr resp, w') \<Rightarrow>
          if StatusCode resp \<noteq> 200 then Some (Inl ErrParsingFailed, w')
          else
            (case Decode (Body resp) of
               Inl err \<Rightarrow> Some (Inl err, w')
             | Inr response \<Rightarrow>
                 (let (jobID, ok) = string_assert (response ''id'')
                  in if \<not> ok then Some (Inl ErrParsingFailed, w')
                     else getJobResult e apiKey BASE_URL jobID mode
                            (resolve_timeoutSeconds t * Second)
                            (resolve_checkIntervalSeconds c * Second) w')))"
  using assms
  by (cases l)
    (simp_all add: Parse_def createMultipartRequest_def http_NewRequest_def Header_Set_def
      upload_exchange_def Let_def split: prod.split sum.split)

lemma Parse_after_upload:
  assumes "file \<noteq> []" and "resolve_apiKey e k = Inr apiKey"
    and "url_error e (BASE_URL @ ''/api/parsing/upload'') = None"
    and "network e (sent w) (upload_exchange e file l apiKey (resolve_timeoutSeconds t) w) = (d, answer)"
  shows "Parse e file mode k l t c w =
     (let w' = answered w (upload_exchange e file l apiKey (resolve_timeoutSeconds t) w) d
      in case answer of
           Inl msg \<Rightarrow> Some (Inl (TransportError msg), w')
         | Inr resp \<Rightarrow>
             if StatusCode resp \<noteq> 200 then Some (Inl ErrParsingFailed, w')
             else (case Decode (Body resp) of
                     Inl err \<Rightarrow> Some (Inl err, w')
                   | Inr response \<Rightarrow>
                       (case response ''id'' of
                          Some (JString jobID) \<Rightarrow>
                            getJobResult e apiKey BASE_URL jobID mode
                              (resolve_timeoutSeconds t * Second)
                              (resolve_checkIntervalSeconds c * Second) w'
                        | _ \<Rightarrow> Some (Inl ErrParsingFailed, w'))))"
proof -
  let ?x = "upload_exchange e file l apiKey (resolve_timeoutSeconds t) w"
  have x: "\<lparr>sent_at = now w, client_timeout = resolve_timeoutSeconds t * Second, req = req ?x\<rparr> = ?x"
    by (simp add: upload_exchange_def)
  have "network e (sent w)
      \<lparr>sent_at = now w, client_timeout = resolve_timeoutSeconds t * Second, req = req ?x\<rparr> =
      (d, answer)"
    using assms(4) by (simp only: x)
  from client_Do_answer [OF this]
  have do: "client_Do e (resolve_timeoutSeconds t * Second) (req ?x) w =
      (case answer of Inl msg \<Rightarrow> Inl (TransportError msg) | Inr resp \<Rightarrow> Inr resp,
       answered w ?x d)"
    by (simp only: x)
  have P: "Parse e file mode k l t c w =
     (case (case answer of Inl msg \<Rightarrow> Inl (TransportError msg) | Inr resp \<Rightarrow> Inr resp,
            answered w ?x d) of
        (Inl err, w') \<Rightarrow> Some (Inl err, w')
      | (Inr resp, w') \<Rightarrow>
          if StatusCode resp \<noteq> 200 then Some (Inl ErrParsingFailed, w')
          else
            (case Decode (Body resp) of
               Inl err \<Rightarrow> Some (Inl err, w')
             | Inr response \<Rightarrow>
                 (let (jobID, ok) = string_assert (response ''id'')
                  in if \<not> ok then Some (Inl ErrParsingFailed, w')
                     else getJobResult e apiKey BASE_URL jobID mode
                            (resolve_timeoutSeconds t * Second)
                            (resolve_checkIntervalSeconds c * Second) w')))"
    by (simp only: Parse_upload_Do [OF assms(1-3)] do)
  show ?thesis
  proof (cases answer)
    case (Inl msg)
    then show ?thesis by (simp add: P)
  next
    case (Inr resp)
    note answer = this
    show ?thesis
    proof (cases "StatusCode resp = 200")
      case False
      then show ?thesis by (simp add: P answer)
    next
      case True
      note code = this
      show ?thesis
      proof (cases "Decode (Body resp)")
        case (Inl err)
        then show ?thesis by (simp add: P answer code)
      next
        case (Inr response)
        then show ?thesis
          by (cases "response ''id''" rule: string_assert.cases) (simp_all add: P answer code)
      qed
    qed
  qed
qed

lemma fetch_result_Do:
  assumes "url_error e resultURL = None"
  shows "fetch_result e timeout headers resultURL mode w =
     (case client_Do e timeout (get_request headers resultURL) w of
        (Inl err, w') \<Rightarrow> Return (Inl err) w'
      | (Inr resp, w') \<Rightarrow>
          if StatusCode resp \<noteq> 200 then Return (Inl ErrParsingFailed) w'
          else
            (case Decode (Body resp) of
               Inl err \<Rightarrow> Return (Inl err) w'
             | Inr resultResponse \<Rightarrow>
                 (let (result, ok) = string_assert (resultResponse mode)
                  in if \<not> ok then Return (Inl ErrParsingFailed) w'
                     else Return (Inr result) w')))"
  using assms by (simp add: fetch_result_def http_NewRequest_def get_request_def Let_def split: prod.split sum.split)

lemma fetch_result_unfold:
  assumes "url_error e resultURL = None"
    and "network e (sent w) (result_exchange timeout headers resultURL w) = (d, answer)"
  shows "fetch_result e timeout headers resultURL mode w =
     (let w' = answered w (result_exchange timeout headers resultURL w) d
      in case answer of
           Inl msg \<Rightarrow> Return (Inl (TransportError msg)) w'
         | Inr resp \<Rightarrow>
             if StatusCode resp \<noteq> 200 then Return (Inl ErrParsingFailed) w'
             else (case Decode (Body resp) of
                     Inl err \<Rightarrow> Return (Inl err) w'
                   | Inr resultResponse \<Rightarrow>
                       (case resultResponse mode of
                          Some (JString s) \<Rightarrow> Return (Inr s) w'
                        | _ \<Rightarrow> Return (Inl ErrParsingFailed) w')))"
proof -
  let ?x = "result_exchange timeout headers resultURL w"
  have x: "\<lparr>sent_at = now w, client_timeout = timeout, req = get_request headers resultURL\<rparr> = ?x"
    by (simp add: result_exchange_def)
  have "network e (sent w)
      \<lparr>sent_at = now w, client_timeout = timeout, req = get_request headers resultURL\<rparr> =
      (d, answer)"
    using assms(2) by (simp only: x)
  from client_Do_answer [OF this]
  have do: "client_Do e timeout (get_request headers resultURL) w =
      (case answer of Inl msg \<Rightarrow> Inl (TransportError msg) | Inr resp \<Rightarrow> Inr resp,
       answered w ?x d)"
    by (simp only: x)
  note P = fetch_result_Do [OF assms(1), of timeout headers mode w, unfolded do]
  show ?thesis
  proof (cases answer)
    case (Inl msg)
    then show ?thesis by (simp add: P)
  next
    case (Inr resp)
    note answer = this
    show ?thesis
    proof (cases "StatusCode resp = 200")
      case False
      then show ?thesis by (simp add: P answer)
    next
      case True
      note code = this
      show ?thesis
      proof (cases "Decode (Body resp)")
        case (Inl err)
        then show ?thesis by (simp add: P answer code)
      next
        case (Inr resultResponse)
        then show ?thesis
          by (cases "resultResponse mode" rule: string_assert.cases)
            (simp_all add: P answer code)
      qed
    qed
  qed
qed

lemma poll_pass_timeout:
  "sint timeout < time_Since start w \<Longrightarrow>
   poll_pass e timeout headers statusURL resultURL mode checkInterval start w =
     Return (Inl ErrTimeoutReached) w"
  by (simp add: poll_pass_def)

lemma poll_pass_Do:
  assumes "\<not> sint timeout < time_Since start w"
    and "url_error e statusURL = None"
  shows "poll_pass e timeout headers statusURL resultURL mode checkInterval start w =
     (case client_Do e timeout (get_request headers statusURL) (time_Sleep checkInterval w) of
        (Inl err, w2) \<Rightarrow> Return (Inl err) w2
      | (Inr resp, w2) \<Rightarrow>
          if StatusCode resp \<noteq> 200 then Continue w2
          else
            (case Decode (Body resp) of
               Inl err \<Rightarrow> Return (Inl err) w2
             | Inr statusResponse \<Rightarrow>
                 (let (status, ok) = string_assert (statusResponse ''status'')
                  in if \<not> ok \<or> status \<noteq> ''SUCCESS'' then Continue w2
                     else fetch_result e timeout headers resultURL mode w2)))"
  using assms by (simp add: poll_pass_def http_NewRequest_def get_request_def Let_def split: prod.split sum.split)

lemma poll_pass_unfold:
  assumes "\<not> sint timeout < time_Since start w"
    and "url_error e statusURL = None"
    and "network e (sent w) (status_exchange timeout headers statusURL checkInterval w) = (d, answer)"
  shows "poll_pass e timeout headers statusURL resultURL mode checkInterval start w =
     (let w2 = answered w (status_exchange timeout headers statusURL checkInterval w) d
      in case answer of
           Inl msg \<Rightarrow> Return (Inl (TransportError msg)) w2
         | Inr resp \<Rightarrow>
             if StatusCode resp \<noteq> 200 then Continue w2
             else (case Decode (Body resp) of
                     Inl err \<Rightarrow> Return (Inl err) w2
                   | Inr statusResponse \<Rightarrow>
                       if statusResponse ''status'' = Some (JString ''SUCCESS'')
                       then fetch_result e timeout headers resultURL mode w2
                       else Continue w2))"
proof -
  let ?w1 = "time_Sleep checkInterval w"
  let ?x = "status_exchange timeout headers statusURL checkInterval w"
  have x: "\<lparr>sent_at = now ?w1, client_timeout = timeout, req = get_request headers statusURL\<rparr> = ?x"
    by (simp add: status_exchange_def time_Sleep_def)
  have s: "sent ?w1 = sent w"
    by (simp add: time_Sleep_def)
  have w2: "answered ?w1 ?x d = answered w ?x d"
    by (simp add: answered_def time_Sleep_def)
  have "network e (sent ?w1)
      \<lparr>sent_at = now ?w1, client_timeout = timeout, req = get_request headers statusURL\<rparr> =
      (d, answer)"
    using assms(3) by (simp only: x s)
  from client_Do_answer [OF this]
  have do: "client_Do e timeout (get_request headers statusURL) ?w1 =
      (case answer of Inl msg \<Rightarrow> Inl (TransportError msg) | Inr resp \<Rightarrow> Inr resp,
       answered w ?x d)"
    by (simp only: x w2)
  note P = poll_pass_Do [OF assms(1,2), of headers resultURL mode checkInterval, unfolded do]
  show ?thesis
  proof (cases answer)
    case (Inl msg)
    then show ?thesis by (simp add: P)
  next
    case (Inr resp)
    note answer = this
    show ?thesis
    proof (cases "StatusCode resp = 200")
      case False
      then show ?thesis by (simp add: P answer)
    next
      case True
      note code = this
      show ?thesis
      proof (cases "Decode (Body resp)")
        case (Inl err)
        then show ?thesis by (simp add: P answer code)
      next
        case (Inr statusResponse)
        then show ?thesis
          by (cases "statusResponse ''status''" rule: string_assert.cases)
            (simp_all add: P answer code)
      qed
    qed
  qed
qed

lemma poll_loop_Continue:
  "poll_pass e timeout headers statusURL resultURL mode checkInterval start w = Continue w' \<Longrightarrow>
   poll_loop e timeout headers statusURL resultURL mode checkInterval start w =
   poll_loop e timeout headers statusURL resultURL mode checkInterval start w'"
  by (subst poll_loop.simps) simp

lemma poll_loop_Return:
  "poll_pass e timeout headers statusURL resultURL mode checkInterval start w = Return r w' \<Longrightarrow>
   poll_loop e timeout headers statusURL resultURL mode checkInterval start w = Some (r, w')"
  by (subst poll_loop.simps) simp

lemma fetch_result_returns:
  "\<exists>r w'. fetch_result e timeout headers resultURL mode w = Return r w'"
  by (simp add: fetch_result_def split: sum.splits prod.splits)

section \<open>Evaluating a scripted run\<close>

lemmas run_defs =
  Parse_def resolve_apiKey_def scripted_env_def scripted_def world0_def
  answer_ok_def answer_text_def answer_code_def
  createMultipartRequest_def http_NewRequest_def Header_Set_def client_Do_def
  resolve_timeoutSeconds_def resolve_checkIntervalSeconds_def getJobResult_def
  poll_pass_def fetch_result_def time_Since_def time_Sleep_def maxDuration_def minDuration_def
  MARKDOWN_def TEXT_def JSON_def BASE_URL_def DEFAULT_MAX_TIMEOUT_SECONDS_def
  DEFAULT_CHECK_INTERVAL_SECONDS_def Second_def

lemma time_Since_world0: "\<not> sint (2000000000 :: Duration) < time_Since 0 world0"
  by (simp add: time_Since_def world0_def maxDuration_def minDuration_def)

lemma url_error_scripted: "url_error (scripted_env key script) u = None"
  by (simp add: scripted_env_def)

section \<open>Requests, exchanges and decoding\<close>

lemma sent_answered: "sent (answered w x d) = sent w @ [x]"
  by (simp add: answered_def)

lemma now_answered: "now (answered w x d) = sent_at x + int d"
  by (simp add: answered_def)

lemma URL_upload_exchange:
  "URL (req (upload_exchange e file l apiKey ts w)) = BASE_URL @ ''/api/parsing/upload''"
  by (simp add: upload_exchange_def)

lemma set_headers_fields:
  "URL (set_headers hs r) = URL r \<and> Method (set_headers hs r) = Method r \<and>
   Form (set_headers hs r) = Form r"
  by (induction hs r rule: set_headers.induct) (simp_all add: Header_Set_def)

lemma get_request_fields:
  "URL (get_request hs u) = u \<and> Method (get_request hs u) = ''GET''"
  by (simp add: get_request_def set_headers_fields)

lemma Decode_error: "Decode b = Inl err \<Longrightarrow> \<exists>msg. err = DecodeError msg"
  by (cases b rule: Decode.cases) auto

lemma seconds_in_range:
  fixes s :: go_int
  assumes "- 9223372036 \<le> sint s" and "sint s \<le> 9223372036"
  shows "sint (s * Second) = sint s * 1000000000"
proof -
  have "sint (s * Second) = signed_take_bit 63 (sint s * 1000000000)"
    by (simp add: sint_word_ariths Second_def)
  also have "\<dots> = sint s * 1000000000"
    using assms by (intro signed_take_bit_int_eq_self) simp_all
  finally show ?thesis .
qed

lemma fetch_result_sent:
  "\<exists>xs. sent (pass_world (fetch_result e timeout headers resultURL mode w)) = sent w @ xs"
proof (cases "url_error e resultURL")
  case (Some msg)
  then show ?thesis by (simp add: fetch_result_def http_NewRequest_def)
next
  case None
  obtain d answer where
    net: "network e (sent w) (result_exchange timeout headers resultURL w) = (d, answer)"
    by (cases "network e (sent w) (result_exchange timeout headers resultURL w)")
  have "sent (pass_world (fetch_result e timeout headers resultURL mode w)) =
      sent w @ [result_exchange timeout headers resultURL w]"
    by (simp add: fetch_result_unfold [OF None net] sent_answered Let_def
        split: sum.split option.split json.split)
  then show ?thesis by blast
qed

lemma fetch_result_url_error:
  "url_error e resultURL = Some msg \<Longrightarrow>
   fetch_result e timeout headers resultURL mode w = Return (Inl (RequestError msg)) w"
  by (simp add: fetch_result_def http_NewRequest_def)

lemma poll_pass_url_error:
  "\<not> sint timeout < time_Since start w \<Longrightarrow> url_error e statusURL = Some msg \<Longrightarrow>
   poll_pass e timeout headers statusURL resultURL mode checkInterval start w =
     Return (Inl (RequestError msg)) (time_Sleep checkInterval w)"
  by (simp add: poll_pass_def http_NewRequest_def)

lemma Parse_url_error:
  "file \<noteq> [] \<Longrightarrow> resolve_apiKey e k = Inr apiKey \<Longrightarrow>
   url_error e (BASE_URL @ ''/api/parsing/upload'') = Some msg \<Longrightarrow>
   Parse e file mode k l t c w = Some (Inl (RequestError msg), w)"
  by (simp add: Parse_def createMultipartRequest_def http_NewRequest_def Let_def)

lemma getJobResult_poll_loop:
  "getJobResult e apiKey baseUrl jobID mode timeout checkInterval w =
   poll_loop e timeout (job_headers apiKey) (job_statusURL baseUrl jobID)
     (job_resultURL baseUrl jobID mode) mode checkInterval (now w) w"
  by (simp add: getJobResult_def job_headers_def job_statusURL_def job_resultURL_def)

lemma poll_loop_fetch:
  assumes "\<not> sint timeout < time_Since start w"
    and "url_error e statusURL = None"
    and "x = status_exchange timeout headers statusURL checkInterval w"
    and "network e (sent w) x = (d, Inr resp)"
    and "StatusCode resp = 200"
    and "Decode (Body resp) = Inr statusResponse"
    and "statusResponse ''status'' = Some (JString ''SUCCESS'')"
    and "fetch_result e timeout headers resultURL mode (answered w x d) = Return r w'"
  shows "poll_loop e timeout headers statusURL resultURL mode checkInterval start w =
      Some (r, w')"
proof -
  note P = poll_pass_unfold [OF assms(1,2) assms(4) [unfolded assms(3)], folded assms(3),
      of resultURL mode]
  have "poll_pass e timeout headers statusURL resultURL mode checkInterval start w =
      Return r w'"
    by (simp add: P assms(5-8))
  then show ?thesis
    by (rule poll_loop_Return)
qed

section \<open>What every run of the loop satisfies\<close>

text \<open>
  A run that returns has a last pass, which returns that result; an invariant of the
  passes that continue holds of the world in which that last pass starts.
\<close>

lemma poll_loop_last_pass:
  assumes run: "poll_loop e timeout headers statusURL resultURL mode checkInterval start w =
      Some (res, w')"
    and inv: "I w"
    and step: "\<And>v v'. I v \<Longrightarrow>
      poll_pass e timeout headers statusURL resultURL mode checkInterval start v = Continue v' \<Longrightarrow>
      I v'"
  shows "\<exists>v. I v \<and>
      poll_pass e timeout headers statusURL resultURL mode checkInterval start v = Return res w'"
proof -
  let ?Q = "\<lambda>e' timeout' headers' statusURL' resultURL' mode' checkInterval' start' v y.
      e' = e \<longrightarrow> timeout' = timeout \<longrightarrow> headers' = headers \<longrightarrow> statusURL' = statusURL \<longrightarrow>
      resultURL' = resultURL \<longrightarrow> mode' = mode \<longrightarrow> checkInterval' = checkInterval \<longrightarrow>
      start' = start \<longrightarrow> I v \<longrightarrow>
      (\<exists>u. I u \<and>
         poll_pass e timeout headers statusURL resultURL mode checkInterval start u =
           Return (fst y) (snd y))"
  have "?Q e timeout headers statusURL resultURL mode checkInterval start w (res, w')"
  proof (rule poll_loop.raw_induct [where P = ?Q, OF _ run], intro impI, goal_cases)
    case (1 f e' timeout' headers' statusURL' resultURL' mode' checkInterval' start' v y)
    note eqs = 1(3-10)
    show ?case
    proof (cases "poll_pass e timeout headers statusURL resultURL mode checkInterval start v")
      case (Continue v')
      with 1(2) eqs have "f e timeout headers statusURL resultURL mode checkInterval start v' =
          Some y"
        by simp
      moreover have "I v'"
        using step [OF 1(11) Continue] .
      ultimately show ?thesis
        using 1(1) by blast
    next
      case (Return r v')
      with 1(2) eqs have "y = (r, v')"
        by simp
      with Return 1(11) show ?thesis
        by auto
    qed
  qed
  with inv show ?thesis by simp
qed

lemma internal_simps [simp]:
  "internal (Inr s)" "internal (Inl ErrParsingFailed)" "internal (Inl ErrTimeoutReached)"
  "internal (Inl (RequestError m))" "internal (Inl (TransportError m))"
  "internal (Inl (DecodeError m))"
  by (simp_all add: internal_def)

lemma internal_Decode: "Decode b = Inl err \<Longrightarrow> internal (Inl err)"
  using Decode_error [of b err] by auto

lemma fetch_result_internal:
  "fetch_result e timeout headers resultURL mode w = Return r v \<Longrightarrow> internal r"
proof (cases "url_error e resultURL")
  case (Some msg)
  assume "fetch_result e timeout headers resultURL mode w = Return r v"
  with Some show ?thesis by (auto simp add: fetch_result_url_error)
next
  case None
  let ?y = "result_exchange timeout headers resultURL w"
  assume r: "fetch_result e timeout headers resultURL mode w = Return r v"
  obtain d answer where net: "network e (sent w) ?y = (d, answer)"
    by (cases "network e (sent w) ?y")
  note F = fetch_result_unfold [OF None net, of mode]
  show ?thesis
  proof (cases answer)
    case (Inl msg)
    with r show ?thesis by (auto simp add: F)
  next
    case (Inr resp)
    note answer = this
    show ?thesis
    proof (cases "StatusCode resp = 200")
      case False
      with r answer show ?thesis by (auto simp add: F)
    next
      case True
      note code = this
      show ?thesis
      proof (cases "Decode (Body resp)")
        case (Inl err)
        with r answer code internal_Decode [OF Inl] show ?thesis by (auto simp add: F)
      next
        case (Inr resultResponse)
        with r answer code show ?thesis
          by (cases "resultResponse mode" rule: string_assert.cases) (auto simp add: F)
      qed
    qed
  qed
qed

lemma fetch_result_world:
  "pass_world (fetch_result e timeout headers resultURL mode w) = w \<or>
   pass_world (fetch_result e timeout headers resultURL mode w) =
     answered w (result_exchange timeout headers resultURL w)
       (fst (network e (sent w) (result_exchange timeout headers resultURL w)))"
proof (cases "url_error e resultURL")
  case (Some msg)
  then show ?thesis by (simp add: fetch_result_url_error)
next
  case None
  let ?y = "result_exchange timeout headers resultURL w"
  obtain d answer where net: "network e (sent w) ?y = (d, answer)"
    by (cases "network e (sent w) ?y")
  have "pass_world (fetch_result e timeout headers resultURL mode w) = answered w ?y d"
    by (simp add: fetch_result_unfold [OF None net] Let_def
        split: sum.split option.split json.split)
  with net show ?thesis by simp
qed

lemma fetch_result_sent_job:
  "\<exists>xs. sent (pass_world (fetch_result e timeout headers resultURL mode w)) = sent w @ xs \<and>
        list_all (job_exchange headers statusURL resultURL) xs"
proof -
  let ?y = "result_exchange timeout headers resultURL w"
  have y: "job_exchange headers statusURL resultURL ?y"
    by (simp add: job_exchange_def result_exchange_def)
  from fetch_result_world [of e timeout headers resultURL mode w]
  have "sent (pass_world (fetch_result e timeout headers resultURL mode w)) = sent w @ [] \<or>
        sent (pass_world (fetch_result e timeout headers resultURL mode w)) = sent w @ [?y]"
    by (auto simp add: sent_answered)
  then show ?thesis
  proof
    assume "sent (pass_world (fetch_result e timeout headers resultURL mode w)) = sent w @ []"
    then show ?thesis by (intro exI [of _ "[]"]) simp
  next
    assume "sent (pass_world (fetch_result e timeout headers resultURL mode w)) = sent w @ [?y]"
    then show ?thesis using y by (intro exI [of _ "[?y]"]) simp
  qed
qed

lemma poll_pass_sent_job:
  "\<exists>xs. sent (pass_world
            (poll_pass e timeout headers statusURL resultURL mode checkInterval start w)) =
          sent w @ xs \<and>
        list_all (job_exchange headers statusURL resultURL) xs"
  (is "\<exists>xs. ?S xs")
proof (cases "sint timeout < time_Since start w")
  case True
  then have "?S []" by (simp add: poll_pass_timeout)
  then show ?thesis ..
next
  case False
  note t = this
  show ?thesis
  proof (cases "url_error e statusURL")
    case (Some msg)
    then have "?S []" by (simp add: poll_pass_url_error [OF t] time_Sleep_def)
    then show ?thesis ..
  next
    case None
    let ?x = "status_exchange timeout headers statusURL checkInterval w"
    obtain d answer where net: "network e (sent w) ?x = (d, answer)"
      by (cases "network e (sent w) ?x")
    note P = poll_pass_unfold [OF t None net, of resultURL mode]
    have x: "job_exchange headers statusURL resultURL ?x"
      by (simp add: job_exchange_def status_exchange_def)
    obtain ys where ys:
      "sent (pass_world (fetch_result e timeout headers resultURL mode (answered w ?x d))) =
         sent (answered w ?x d) @ ys"
      "list_all (job_exchange headers statusURL resultURL) ys"
      using fetch_result_sent_job [of e timeout headers resultURL mode "answered w ?x d" statusURL]
      by blast
    have one: "?S [?x]"
      if "pass_world (poll_pass e timeout headers statusURL resultURL mode checkInterval start w) =
          answered w ?x d"
      using that x by (simp add: sent_answered)
    have two: "?S (?x # ys)"
      if "poll_pass e timeout headers statusURL resultURL mode checkInterval start w =
          fetch_result e timeout headers resultURL mode (answered w ?x d)"
      using that x ys by (simp add: sent_answered)
    have "pass_world (poll_pass e timeout headers statusURL resultURL mode checkInterval start w) =
          answered w ?x d \<or>
          poll_pass e timeout headers statusURL resultURL mode checkInterval start w =
          fetch_result e timeout headers resultURL mode (answered w ?x d)"
      by (simp add: P Let_def split: sum.split)
    with one two show ?thesis by blast
  qed
qed

lemma poll_pass_internal:
  "poll_pass e timeout headers statusURL resultURL mode checkInterval start w = Return r v \<Longrightarrow>
   internal r"
proof (cases "sint timeout < time_Since start w")
  case True
  assume "poll_pass e timeout headers statusURL resultURL mode checkInterval start w = Return r v"
  with True show ?thesis by (auto simp add: poll_pass_timeout)
next
  case False
  note t = this
  assume r: "poll_pass e timeout headers statusURL resultURL mode checkInterval start w =
      Return r v"
  show ?thesis
  proof (cases "url_error e statusURL")
    case (Some msg)
    with r show ?thesis by (auto simp add: poll_pass_url_error [OF t])
  next
    case None
    let ?x = "status_exchange timeout headers statusURL checkInterval w"
    obtain d answer where net: "network e (sent w) ?x = (d, answer)"
      by (cases "network e (sent w) ?x")
    note P = poll_pass_unfold [OF t None net, of resultURL mode]
    show ?thesis
    proof (cases answer)
      case (Inl msg)
      with r show ?thesis by (auto simp add: P)
    next
      case (Inr resp)
      note answer = this
      show ?thesis
      proof (cases "StatusCode resp = 200")
        case False
        with r answer show ?thesis by (auto simp add: P)
      next
        case True
        note code = this
        show ?thesis
        proof (cases "Decode (Body resp)")
          case (Inl err)
          with r answer code internal_Decode [OF Inl] show ?thesis by (auto simp add: P)
        next
          case (Inr statusResponse)
          show ?thesis
          proof (cases "statusResponse ''status'' = Some (JString ''SUCCESS'')")
            case True
            with r answer code Inr
            have "fetch_result e timeout headers resultURL mode (answered w ?x d) = Return r v"
              by (simp add: P)
            then show ?thesis by (rule fetch_result_internal)
          next
            case False
            with r answer code Inr show ?thesis by (auto simp add: P)
          qed
        qed
      qed
    qed
  qed
qed

lemma job_log_refl: "job_log headers statusURL resultURL w w"
  by (simp add: job_log_def)

lemma job_log_pass:
  assumes "job_log headers statusURL resultURL w v"
  shows "job_log headers statusURL resultURL w
     (pass_world (poll_pass e timeout headers statusURL resultURL mode checkInterval start v))"
proof -
  from assms obtain xs where xs: "sent v = sent w @ xs"
    "list_all (job_exchange headers statusURL resultURL) xs"
    unfolding job_log_def by blast
  from poll_pass_sent_job [of e timeout headers statusURL resultURL mode checkInterval start v]
  obtain ys where ys:
    "sent (pass_world
       (poll_pass e timeout headers statusURL resultURL mode checkInterval start v)) =
     sent v @ ys"
    "list_all (job_exchange headers statusURL resultURL) ys"
    by blast
  show ?thesis
    unfolding job_log_def
    by (intro exI [of _ "xs @ ys"]) (simp add: xs ys)
qed

lemma job_log_Continue:
  assumes "job_log headers statusURL resultURL w v"
    and "poll_pass e timeout headers statusURL resultURL mode checkInterval start v = Continue v'"
  shows "job_log headers statusURL resultURL w v'"
  using job_log_pass [OF assms(1), of e timeout mode checkInterval start] assms(2) by simp

lemma poll_loop_summary:
  assumes "poll_loop e timeout headers statusURL resultURL mode checkInterval start w =
      Some (res, w')"
  shows "internal res \<and> job_log headers statusURL resultURL w w'"
proof -
  have "\<exists>v. job_log headers statusURL resultURL w v \<and>
      poll_pass e timeout headers statusURL resultURL mode checkInterval start v = Return res w'"
    using assms job_log_refl
  proof (rule poll_loop_last_pass [where I = "job_log headers statusURL resultURL w"])
    fix v v'
    assume "job_log headers statusURL resultURL w v"
      and "poll_pass e timeout headers statusURL resultURL mode checkInterval start v = Continue v'"
    then show "job_log headers statusURL resultURL w v'"
      by (rule job_log_Continue)
  qed
  then obtain v where v: "job_log headers statusURL resultURL w v"
    "poll_pass e timeout headers statusURL resultURL mode checkInterval start v = Return res w'"
    by blast
  have "internal res"
    using v(2) by (rule poll_pass_internal)
  moreover have "job_log headers statusURL resultURL w w'"
    using job_log_pass [OF v(1), of e timeout mode checkInterval start] v(2) by simp
  ultimately show ?thesis by blast
qed

section \<open>The environment's key and an explicit key\<close>

text \<open>
  Only \<open>resolve_apiKey\<close> reads \<open>getenv\<close>, and only when no key is passed. Two
  environments whose passes agree have the same runs of the loop.
\<close>

lemma http_NewRequest_getenv:
  "http_NewRequest (e\<lparr>getenv := g\<rparr>) = http_NewRequest e"
  by (intro ext) (simp add: http_NewRequest_def)

lemma client_Do_getenv: "client_Do (e\<lparr>getenv := g\<rparr>) = client_Do e"
  by (intro ext) (simp add: client_Do_def)

lemma createMultipartRequest_getenv:
  "createMultipartRequest (e\<lparr>getenv := g\<rparr>) = createMultipartRequest e"
  by (intro ext) (simp add: createMultipartRequest_def)

lemma fetch_result_getenv: "fetch_result (e\<lparr>getenv := g\<rparr>) = fetch_result e"
  unfolding fetch_result_def http_NewRequest_getenv client_Do_getenv by (rule refl)

lemma poll_pass_getenv: "poll_pass (e\<lparr>getenv := g\<rparr>) = poll_pass e"
  unfolding poll_pass_def http_NewRequest_getenv client_Do_getenv fetch_result_getenv
  by (rule refl)

lemma poll_loop_transfer:
  assumes run: "poll_loop e1 timeout headers statusURL resultURL mode checkInterval start w =
      Some y"
    and same: "\<And>v. poll_pass e1 timeout headers statusURL resultURL mode checkInterval start v =
      poll_pass e2 timeout headers statusURL resultURL mode checkInterval start v"
  shows "poll_loop e2 timeout headers statusURL resultURL mode checkInterval start w = Some y"
proof -
  let ?Q = "\<lambda>e' timeout' headers' statusURL' resultURL' mode' checkInterval' start' v y.
      e' = e1 \<longrightarrow> timeout' = timeout \<longrightarrow> headers' = headers \<longrightarrow> statusURL' = statusURL \<longrightarrow>
      resultURL' = resultURL \<longrightarrow> mode' = mode \<longrightarrow> checkInterval' = checkInterval \<longrightarrow>
      start' = start \<longrightarrow>
      poll_loop e2 timeout headers statusURL resultURL mode checkInterval start v = Some y"
  have "?Q e1 timeout headers statusURL resultURL mode checkInterval start w y"
  proof (rule poll_loop.raw_induct [where P = ?Q, OF _ run], intro impI, goal_cases)
    case (1 f e' timeout' headers' statusURL' resultURL' mode' checkInterval' start' v y)
    note eqs = 1(3-10)
    show ?case
    proof (cases "poll_pass e1 timeout headers statusURL resultURL mode checkInterval start v")
      case (Continue v')
      with 1(2) eqs have "f e1 timeout headers statusURL resultURL mode checkInterval start v' =
          Some y"
        by simp
      with 1(1) have "poll_loop e2 timeout headers statusURL resultURL mode checkInterval start v' =
          Some y"
        by blast
      moreover have "poll_pass e2 timeout headers statusURL resultURL mode checkInterval start v =
          Continue v'"
        using Continue by (simp only: same)
      ultimately show ?thesis
        by (simp only: poll_loop_Continue)
    next
      case (Return r v')
      with 1(2) eqs have "y = (r, v')"
        by simp
      moreover have "poll_pass e2 timeout headers statusURL resultURL mode checkInterval start v =
          Return r v'"
        using Return by (simp only: same)
      ultimately show ?thesis
        by (simp only: poll_loop_Return)
    qed
  qed
  then show ?thesis by simp
qed

lemma poll_loop_getenv:
  "poll_loop (e\<lparr>getenv := g\<rparr>) timeout headers statusURL resultURL mode checkInterval start w =
   poll_loop e timeout headers statusURL resultURL mode checkInterval start w"
proof (cases "poll_loop e timeout headers statusURL resultURL mode checkInterval start w")
  case (Some y)
  then have "poll_loop (e\<lparr>getenv := g\<rparr>) timeout headers statusURL resultURL mode checkInterval
      start w = Some y"
    by (rule poll_loop_transfer) (simp only: poll_pass_getenv)
  with Some show ?thesis by simp
next
  case None
  show ?thesis
  proof (cases "poll_loop (e\<lparr>getenv := g\<rparr>) timeout headers statusURL resultURL mode
      checkInterval start w")
    case (Some y)
    then have "poll_loop e timeout headers statusURL resultURL mode checkInterval start w = Some y"
      by (rule poll_loop_transfer) (simp only: poll_pass_getenv)
    with None show ?thesis by simp
  next
    case None': None
    with None show ?thesis by simp
  qed
qed

lemma getJobResult_getenv:
  "getJobResult (e\<lparr>getenv := g\<rparr>) apiKey baseUrl jobID mode timeout checkInterval w =
   getJobResult e apiKey baseUrl jobID mode timeout checkInterval w"
  by (simp only: getJobResult_poll_loop poll_loop_getenv)

lemma Parse_getenv:
  "Parse (e\<lparr>getenv := g\<rparr>) file mode (Some k) l t c w = Parse e file mode (Some k) l t c w"
proof -
  have k: "resolve_apiKey (e\<lparr>getenv := g\<rparr>) (Some k) = resolve_apiKey e (Some k)"
    by (simp add: resolve_apiKey_def)
  show ?thesis
    unfolding Parse_def k createMultipartRequest_getenv http_NewRequest_getenv client_Do_getenv
      getJobResult_getenv
    by (rule refl)
qed

lemma bearer_upload_exchange: "bearer apiKey (upload_exchange e file l apiKey ts w)"
  by (simp add: bearer_def upload_exchange_def)

lemma bearer_job_exchange:
  "job_exchange (job_headers apiKey) statusURL resultURL x \<Longrightarrow> bearer apiKey x"
  by (auto simp add: job_exchange_def bearer_def get_request_def job_headers_def Header_Set_def)

lemma Parse_explicit_key:
  assumes run: "Parse e file mode (Some k) l t c w = Some (r, w')" and nonempty: "file \<noteq> []"
    and url: "url_error e (BASE_URL @ ''/api/parsing/upload'') = None"
  shows "internal r \<and>
    (\<exists>xs. sent w' = sent w @ upload_exchange e file l k (resolve_timeoutSeconds t) w # xs \<and>
          list_all (bearer k) xs)"
    (is "_ \<and> (\<exists>xs. ?S xs)")
proof -
  let ?u = "upload_exchange e file l k (resolve_timeoutSeconds t) w"
  have key: "resolve_apiKey e (Some k) = Inr k"
    by (simp add: resolve_apiKey_def)
  obtain d answer where net: "network e (sent w) ?u = (d, answer)"
    by (cases "network e (sent w) ?u")
  note P = Parse_after_upload [OF nonempty key url net, of mode c]
  have stop: "internal r \<and> (\<exists>xs. ?S xs)" if "internal r" "w' = answered w ?u d"
  proof -
    have "?S []" using that(2) by (simp add: sent_answered)
    with that(1) show ?thesis by blast
  qed
  show ?thesis
  proof (cases answer)
    case (Inl msg)
    with run have "r = Inl (TransportError msg)" "w' = answered w ?u d"
      by (simp_all add: P)
    then show ?thesis by (intro stop) simp_all
  next
    case (Inr resp)
    note answer = this
    show ?thesis
    proof (cases "StatusCode resp = 200")
      case False
      with run answer have "r = Inl ErrParsingFailed" "w' = answered w ?u d"
        by (simp_all add: P)
      then show ?thesis by (intro stop) simp_all
    next
      case True
      note code = this
      show ?thesis
      proof (cases "Decode (Body resp)")
        case (Inl err)
        with run answer code have "r = Inl err" "w' = answered w ?u d"
          by (simp_all add: P)
        with internal_Decode [OF Inl] show ?thesis by (intro stop) simp_all
      next
        case (Inr response)
        note body = this
        show ?thesis
        proof (cases "\<exists>jobID. response ''id'' = Some (JString jobID)")
          case False
          then have "r = Inl ErrParsingFailed \<and> w' = answered w ?u d"
            using run answer code body
            by (cases "response ''id''" rule: string_assert.cases) (simp_all add: P)
          then show ?thesis by (intro stop) simp_all
        next
          case True
          then obtain jobID where jobID: "response ''id'' = Some (JString jobID)"
            by blast
          let ?h = "job_headers k"
          let ?s = "job_statusURL BASE_URL jobID"
          let ?r = "job_resultURL BASE_URL jobID mode"
          from run answer code body jobID
          have "getJobResult e k BASE_URL jobID mode (resolve_timeoutSeconds t * Second)
              (resolve_checkIntervalSeconds c * Second) (answered w ?u d) = Some (r, w')"
            by (simp add: P)
          then have "poll_loop e (resolve_timeoutSeconds t * Second) ?h ?s ?r mode
              (resolve_checkIntervalSeconds c * Second) (now (answered w ?u d))
              (answered w ?u d) = Some (r, w')"
            by (simp only: getJobResult_poll_loop)
          then have s: "internal r \<and> job_log ?h ?s ?r (answered w ?u d) w'"
            by (rule poll_loop_summary)
          then obtain xs where xs: "sent w' = sent (answered w ?u d) @ xs"
            "list_all (job_exchange ?h ?s ?r) xs"
            unfolding job_log_def by blast
          have "list_all (bearer k) xs"
            using xs(2) bearer_job_exchange [of k ?s ?r] by (auto simp add: list_all_iff)
          with xs(1) have "?S xs"
            by (simp add: sent_answered)
          with s show ?thesis by blast
        qed
      qed
    qed
  qed
qed

section \<open>Input checks of Parse\<close>

text \<open>
  Claim C7. For every empty file, whatever the other arguments are, \<open>Parse\<close> returns
  \<open>ErrEmptyFile\<close> and leaves the world as it was: the clock has not moved and no exchange
  has been made.
\<close>

theorem Parse_empty_file:
  "Parse e [] mode apiKeyOptional languageOptional timeoutSecondsOptional
     checkIntervalSecondsOptional w = Some (Inl ErrEmptyFile, w)"
  by (simp add: Parse_def)

theorem Parse_empty_file_witness:
  "Parse (scripted_env ''key'' []) [] MARKDOWN (Some ''k2'') (Some ''en'') (Some 5) (Some 2) world0 =
     Some (Inl ErrEmptyFile, world0) \<and> sent world0 = []"
  using Parse_empty_file [of "scripted_env ''key'' []" MARKDOWN "Some ''k2''" "Some ''en''"
      "Some 5" "Some 2" world0]
  by (simp add: world0_def)

text \<open>
  Claim C8, as stated: every call without a key argument and without a key in the
  environment returns \<open>ErrNoAPIKey\<close>. The length of the file is tested first, so such a
  call with an empty file returns \<open>ErrEmptyFile\<close>.
\<close>

theorem Parse_no_credential_counterexample:
  "getenv (scripted_env '''' []) ''LLAMA_CLOUD_API_KEY'' = '''' \<and>
   Parse (scripted_env '''' []) [] MARKDOWN None None None None world0 =
     Some (Inl ErrEmptyFile, world0) \<and>
   Parse (scripted_env '''' []) [] MARKDOWN None None None None world0 \<noteq>
     Some (Inl ErrNoAPIKey, world0)"
  by (simp add: Parse_def scripted_env_def)

text \<open>
  Claim C8, amended: for every call with a file that is not empty, without a key argument
  and without a key in the environment, \<open>Parse\<close> returns \<open>ErrNoAPIKey\<close> and leaves the
  world as it was, so no exchange has been made.
\<close>

theorem Parse_no_credential:
  assumes "file \<noteq> []" and "getenv e ''LLAMA_CLOUD_API_KEY'' = ''''"
  shows "Parse e file mode None languageOptional timeoutSecondsOptional
           checkIntervalSecondsOptional w = Some (Inl ErrNoAPIKey, w)"
  using assms by (simp add: Parse_def resolve_apiKey_def)

theorem Parse_no_credential_witness:
  "[1] \<noteq> ([] :: bytes) \<and> getenv (scripted_env '''' []) ''LLAMA_CLOUD_API_KEY'' = '''' \<and>
   Parse (scripted_env '''' []) [1] MARKDOWN None None None None world0 =
     Some (Inl ErrNoAPIKey, world0) \<and> sent world0 = []"
proof -
  have h1: "[1] \<noteq> ([] :: bytes)" by simp
  have h2: "getenv (scripted_env '''' []) ''LLAMA_CLOUD_API_KEY'' = ''''"
    by (simp add: scripted_env_def)
  show ?thesis
    using h1 h2 Parse_no_credential [OF h1 h2, of MARKDOWN None None None world0]
    by (simp add: world0_def)
qed

text \<open>
  Claim C10. An explicit key that is the empty string is the resolved key: the environment
  is not read, so \<open>Parse\<close> gives the same outcome whatever \<open>getenv\<close> would answer; no
  run returns \<open>ErrNoAPIKey\<close>; the upload request carries \<open>Bearer\<close> followed by the empty
  key, and when the file is not empty and the upload request can be built the run's log is
  that upload exchange followed by exchanges that all carry the same credential.
\<close>

theorem explicit_empty_key:
  "resolve_apiKey e (Some '''') = Inr '''' \<and>
   Parse (e\<lparr>getenv := g\<rparr>) file mode (Some '''') l t c w =
     Parse e file mode (Some '''') l t c w \<and>
   (\<forall>r w'. Parse e file mode (Some '''') l t c w = Some (r, w') \<longrightarrow>
      r \<noteq> Inl ErrNoAPIKey \<and>
      (file \<noteq> [] \<longrightarrow> url_error e (BASE_URL @ ''/api/parsing/upload'') = None \<longrightarrow>
         (\<exists>xs. sent w' = sent w @ upload_exchange e file l '''' (resolve_timeoutSeconds t) w # xs \<and>
               list_all (bearer '''') xs)) \<and>
      bearer '''' (upload_exchange e file l '''' (resolve_timeoutSeconds t) w))"
proof (intro conjI allI impI)
  show "resolve_apiKey e (Some '''') = Inr ''''"
    by (simp add: resolve_apiKey_def)
  show "Parse (e\<lparr>getenv := g\<rparr>) file mode (Some '''') l t c w =
      Parse e file mode (Some '''') l t c w"
    by (rule Parse_getenv)
next
  fix r w'
  assume run: "Parse e file mode (Some '''') l t c w = Some (r, w')"
  have key: "resolve_apiKey e (Some '''') = Inr ''''"
    by (simp add: resolve_apiKey_def)
  show "r \<noteq> Inl ErrNoAPIKey"
  proof (cases "file = []")
    case True
    with run show ?thesis by (auto simp add: Parse_def)
  next
    case False
    show ?thesis
    proof (cases "url_error e (BASE_URL @ ''/api/parsing/upload'')")
      case (Some msg)
      with run show ?thesis by (auto simp add: Parse_url_error [OF False key])
    next
      case None
      from Parse_explicit_key [OF run False None] show ?thesis
        by (auto simp add: internal_def)
    qed
  qed
next
  fix r w'
  assume run: "Parse e file mode (Some '''') l t c w = Some (r, w')"
    and nonempty: "file \<noteq> []"
    and url: "url_error e (BASE_URL @ ''/api/parsing/upload'') = None"
  show "\<exists>xs. sent w' =
      sent w @ upload_exchange e file l '''' (resolve_timeoutSeconds t) w # xs \<and>
      list_all (bearer '''') xs"
    using Parse_explicit_key [OF run nonempty url] by blast
next
  fix r w'
  show "bearer '''' (upload_exchange e file l '''' (resolve_timeoutSeconds t) w)"
    by (rule bearer_upload_exchange)
qed

theorem explicit_empty_key_witness:
  "Parse (scripted_env ''envkey'' [(3, answer_code 401)]) [1] MARKDOWN (Some '''') None None None
     world0 =
   Some (Inl ErrParsingFailed,
     \<lparr>now = 3,
      sent = [\<lparr>sent_at = 0, client_timeout = 2000000000000,
               req = \<lparr>Method = ''POST'',
                      URL = ''https://api.cloud.llamaindex.ai/api/parsing/upload'',
                      Header = [(''Authorization'', ''Bearer ''),
                                (''Content-Type'', ''multipart/form-data; boundary=boundary0'')],
                      Form = [FormFile ''file'' ''uploadfile'' [1]]\<rparr>\<rparr>]\<rparr>) \<and>
   getenv (scripted_env ''envkey'' [(3, answer_code 401)]) ''LLAMA_CLOUD_API_KEY'' = ''envkey'' \<and>
   Parse ((scripted_env ''envkey'' [(3, answer_code 401)])\<lparr>getenv := \<lambda>name. ''''\<rparr>) [1] MARKDOWN
     (Some '''') None None None world0 =
   Parse (scripted_env ''envkey'' [(3, answer_code 401)]) [1] MARKDOWN (Some '''') None None None
     world0"
proof -
  let ?e = "scripted_env ''envkey'' [(3, answer_code 401)]"
  let ?W = "\<lparr>now = 3,
      sent = [\<lparr>sent_at = 0, client_timeout = 2000000000000,
               req = \<lparr>Method = ''POST'',
                      URL = ''https://api.cloud.llamaindex.ai/api/parsing/upload'',
                      Header = [(''Authorization'', ''Bearer ''),
                                (''Content-Type'', ''multipart/form-data; boundary=boundary0'')],
                      Form = [FormFile ''file'' ''uploadfile'' [1]]\<rparr>\<rparr>]\<rparr>"
  have run: "Parse ?e [1] MARKDOWN (Some '''') None None None world0 =
      Some (Inl ErrParsingFailed, ?W)"
    by (simp add: run_defs)
  have env: "getenv ?e ''LLAMA_CLOUD_API_KEY'' = ''envkey''"
    by (simp add: scripted_env_def)
  note T = explicit_empty_key [of ?e "\<lambda>name. ''''" "[1]" MARKDOWN None None None world0]
  from T have same: "Parse (?e\<lparr>getenv := \<lambda>name. ''''\<rparr>) [1] MARKDOWN (Some '''') None None None
      world0 = Parse ?e [1] MARKDOWN (Some '''') None None None world0"
    by blast
  from run env same show ?thesis
    by (intro conjI)
qed

section \<open>The upload stage\<close>

text \<open>
  Claim C9. Once the upload has been answered with a job id, \<open>Parse\<close> is
  \<open>getJobResult\<close> with the timeout seconds and the interval seconds, each times
  \<open>time.Second\<close>, where the seconds are 2000 and 1 when the argument is omitted and the
  argument's value otherwise; the same timeout is the client timeout of the upload. The
  product is computed in 64 bits: it is the exact number of nanoseconds for the defaults
  and for every value of at most 9223372036 seconds in absolute value.
\<close>

theorem Parse_timeouts:
  assumes "file \<noteq> []"
    and "resolve_apiKey e apiKeyOptional = Inr apiKey"
    and "url_error e (BASE_URL @ ''/api/parsing/upload'') = None"
    and "timeoutSeconds = (case timeoutSecondsOptional of None \<Rightarrow> 2000 | Some t \<Rightarrow> t)"
    and "checkIntervalSeconds = (case checkIntervalSecondsOptional of None \<Rightarrow> 1 | Some c \<Rightarrow> c)"
    and "x = upload_exchange e file languageOptional apiKey timeoutSeconds w"
    and "network e (sent w) x = (d, Inr resp)"
    and "StatusCode resp = 200"
    and "Decode (Body resp) = Inr response"
    and "response ''id'' = Some (JString jobID)"
  shows "Parse e file mode apiKeyOptional languageOptional timeoutSecondsOptional
           checkIntervalSecondsOptional w =
         getJobResult e apiKey BASE_URL jobID mode
           (timeoutSeconds * 1000000000) (checkIntervalSeconds * 1000000000) (answered w x d) \<and>
         client_timeout x = timeoutSeconds * 1000000000 \<and>
         (timeoutSecondsOptional = None \<longrightarrow> sint (timeoutSeconds * 1000000000) = 2000 * 1000000000) \<and>
         (checkIntervalSecondsOptional = None \<longrightarrow>
            sint (checkIntervalSeconds * 1000000000) = 1 * 1000000000) \<and>
         (- 9223372036 \<le> sint timeoutSeconds \<and> sint timeoutSeconds \<le> 9223372036 \<longrightarrow>
            sint (timeoutSeconds * 1000000000) = sint timeoutSeconds * 1000000000) \<and>
         (- 9223372036 \<le> sint checkIntervalSeconds \<and> sint checkIntervalSeconds \<le> 9223372036 \<longrightarrow>
            sint (checkIntervalSeconds * 1000000000) = sint checkIntervalSeconds * 1000000000)"
proof -
  have ts: "resolve_timeoutSeconds timeoutSecondsOptional = timeoutSeconds"
    by (simp add: resolve_timeoutSeconds_def DEFAULT_MAX_TIMEOUT_SECONDS_def assms(4)
        split: option.splits)
  have cs: "resolve_checkIntervalSeconds checkIntervalSecondsOptional = checkIntervalSeconds"
    by (simp add: resolve_checkIntervalSeconds_def DEFAULT_CHECK_INTERVAL_SECONDS_def assms(5)
        split: option.splits)
  have net: "network e (sent w)
      (upload_exchange e file languageOptional apiKey
         (resolve_timeoutSeconds timeoutSecondsOptional) w) = (d, Inr resp)"
    using assms(7) by (simp only: ts assms(6))
  note P = Parse_after_upload [OF assms(1-3) net, unfolded ts cs, folded assms(6)]
  have sec: "k * Second = k * 1000000000" for k :: go_int
    by (simp add: Second_def)
  show ?thesis
    apply (intro conjI impI)
    subgoal by (simp add: P assms(8-10) sec cs)
    subgoal by (simp add: assms(6) upload_exchange_def sec)
    subgoal by (simp add: assms(4))
    subgoal by (simp add: assms(5))
    subgoal using seconds_in_range [of timeoutSeconds] by (simp add: sec)
    subgoal using seconds_in_range [of checkIntervalSeconds] by (simp add: sec)
    done
qed

theorem Parse_timeouts_witness:
  "Parse (scripted_env ''key'' [(3, answer_ok (JObject [(''id'', JString ''job1'')]))])
     [1] MARKDOWN None None None None world0 =
   getJobResult (scripted_env ''key'' [(3, answer_ok (JObject [(''id'', JString ''job1'')]))])
     ''key'' BASE_URL ''job1'' MARKDOWN 2000000000000 1000000000
     (answered world0
        (upload_exchange
           (scripted_env ''key'' [(3, answer_ok (JObject [(''id'', JString ''job1'')]))])
           [1] None ''key'' 2000 world0) 3) \<and>
   sint (2000000000000 :: Duration) = 2000 * 1000000000 \<and>
   sint (1000000000 :: Duration) = 1 * 1000000000"
proof -
  let ?e = "scripted_env ''key'' [(3, answer_ok (JObject [(''id'', JString ''job1'')]))]"
  let ?x = "upload_exchange ?e [1] None ''key'' 2000 world0"
  let ?resp = "\<lparr>StatusCode = 200, Body = JsonText (JObject [(''id'', JString ''job1'')])\<rparr>"
  have h1: "[1] \<noteq> ([] :: bytes)" by simp
  have h2: "resolve_apiKey ?e None = Inr ''key''"
    by (simp add: resolve_apiKey_def scripted_env_def)
  have h4: "(2000 :: go_int) = (case None of None \<Rightarrow> 2000 | Some t \<Rightarrow> t)" by simp
  have h5: "(1 :: go_int) = (case None of None \<Rightarrow> 1 | Some c \<Rightarrow> c)" by simp
  have n: "network ?e (sent world0) ?x = (3, Inr ?resp)"
    by (simp add: scripted_env_def scripted_def world0_def answer_ok_def)
  have c: "StatusCode ?resp = 200" by simp
  have d: "Decode (Body ?resp) = Inr (map_of (rev [(''id'', JString ''job1'')]))"
    by simp
  have i: "map_of (rev [(''id'', JString ''job1'')]) ''id'' = Some (JString ''job1'')"
    by simp
  from Parse_timeouts [OF h1 h2 url_error_scripted h4 h5 refl n c d i, of MARKDOWN]
  show ?thesis
    by simp
qed

text \<open>
  Claim C5. When the upload is answered with a code other than 200, \<open>Parse\<close> returns
  \<open>ErrParsingFailed\<close> in the world right after the upload exchange, whose log has that
  one exchange more, the request to the upload URL: no polling request has been made. When
  it is answered with code 200 and a body that decodes to a map without a string under
  \<open>id\<close>, \<open>Parse\<close> returns \<open>ErrParsingFailed\<close> in that same world.
\<close>

theorem upload_failure:
  assumes "file \<noteq> []"
    and "resolve_apiKey e apiKeyOptional = Inr apiKey"
    and "url_error e (BASE_URL @ ''/api/parsing/upload'') = None"
    and "x = upload_exchange e file languageOptional apiKey
               (resolve_timeoutSeconds timeoutSecondsOptional) w"
    and "network e (sent w) x = (d, Inr resp)"
  shows "(StatusCode resp \<noteq> 200 \<longrightarrow>
            Parse e file mode apiKeyOptional languageOptional timeoutSecondsOptional
              checkIntervalSecondsOptional w = Some (Inl ErrParsingFailed, answered w x d)) \<and>
         (StatusCode resp = 200 \<longrightarrow>
            (\<forall>response. Decode (Body resp) = Inr response \<longrightarrow>
               (\<forall>jobID. response ''id'' \<noteq> Some (JString jobID)) \<longrightarrow>
               Parse e file mode apiKeyOptional languageOptional timeoutSecondsOptional
                 checkIntervalSecondsOptional w = Some (Inl ErrParsingFailed, answered w x d))) \<and>
         sent (answered w x d) = sent w @ [x] \<and>
         URL (req x) = BASE_URL @ ''/api/parsing/upload''"
proof -
  note P = Parse_after_upload [OF assms(1-3) assms(5) [unfolded assms(4)], folded assms(4)]
  show ?thesis
    apply (intro conjI impI allI)
    subgoal by (simp add: P)
    subgoal for response
      by (cases "response ''id''" rule: string_assert.cases) (simp_all add: P)
    subgoal by (rule sent_answered)
    subgoal by (simp only: assms(4) URL_upload_exchange)
    done
qed

theorem upload_failure_witness:
  "Parse (scripted_env ''key'' [(3, answer_code 500)]) [1] MARKDOWN None None None None world0 =
     Some (Inl ErrParsingFailed,
       answered world0
         (upload_exchange (scripted_env ''key'' [(3, answer_code 500)]) [1] None ''key''
            (resolve_timeoutSeconds None) world0) 3) \<and>
   length (sent (answered world0
         (upload_exchange (scripted_env ''key'' [(3, answer_code 500)]) [1] None ''key''
            (resolve_timeoutSeconds None) world0) 3)) = 1"
proof -
  let ?e = "scripted_env ''key'' [(3, answer_code 500)]"
  let ?x = "upload_exchange ?e [1] None ''key'' (resolve_timeoutSeconds None) world0"
  let ?resp = "\<lparr>StatusCode = 500, Body = NotJson ''unexpected end of JSON input''\<rparr>"
  have h1: "[1] \<noteq> ([] :: bytes)" by simp
  have h2: "resolve_apiKey ?e None = Inr ''key''"
    by (simp add: resolve_apiKey_def scripted_env_def)
  have h3: "url_error ?e (BASE_URL @ ''/api/parsing/upload'') = None"
    by (simp add: scripted_env_def)
  have h5: "network ?e (sent world0) ?x = (3, Inr ?resp)"
    by (simp add: scripted_env_def scripted_def world0_def answer_code_def)
  show ?thesis
    using upload_failure [OF h1 h2 h3 refl h5, of MARKDOWN None]
    by (simp add: sent_answered world0_def)
qed

section \<open>The poll loop\<close>

text \<open>
  Claim C1. When a status check is answered with code 200 and a body that decodes to a
  map, the pass goes on to the result request exactly when the value under \<open>status\<close> is
  the string \<open>SUCCESS\<close>, and only then does the pass return; for every other value,
  another string, a value that is not a string or no value, the pass continues and the loop
  runs its next pass from the world after the status exchange.
\<close>

theorem status_success_condition:
  assumes "\<not> sint timeout < time_Since start w"
    and "url_error e statusURL = None"
    and "x = status_exchange timeout headers statusURL checkInterval w"
    and "network e (sent w) x = (d, Inr resp)"
    and "StatusCode resp = 200"
    and "Decode (Body resp) = Inr statusResponse"
  shows "(statusResponse ''status'' = Some (JString ''SUCCESS'') \<longrightarrow>
            poll_pass e timeout headers statusURL resultURL mode checkInterval start w =
              fetch_result e timeout headers resultURL mode (answered w x d)) \<and>
         (statusResponse ''status'' \<noteq> Some (JString ''SUCCESS'') \<longrightarrow>
            poll_pass e timeout headers statusURL resultURL mode checkInterval start w =
              Continue (answered w x d) \<and>
            poll_loop e timeout headers statusURL resultURL mode checkInterval start w =
              poll_loop e timeout headers statusURL resultURL mode checkInterval start
                (answered w x d)) \<and>
         ((\<exists>r w'. poll_pass e timeout headers statusURL resultURL mode checkInterval start w =
              Return r w') \<longleftrightarrow>
            statusResponse ''status'' = Some (JString ''SUCCESS''))"
proof -
  note P = poll_pass_unfold [OF assms(1,2) assms(4) [unfolded assms(3)], folded assms(3),
      of resultURL mode]
  have yes: "poll_pass e timeout headers statusURL resultURL mode checkInterval start w =
      fetch_result e timeout headers resultURL mode (answered w x d)"
    if "statusResponse ''status'' = Some (JString ''SUCCESS'')"
    using that by (simp add: P assms(5,6))
  have no: "poll_pass e timeout headers statusURL resultURL mode checkInterval start w =
      Continue (answered w x d)"
    if "statusResponse ''status'' \<noteq> Some (JString ''SUCCESS'')"
    using that by (simp add: P assms(5,6))
  show ?thesis
  proof (cases "statusResponse ''status'' = Some (JString ''SUCCESS'')")
    case True
    with yes fetch_result_returns [of e timeout headers resultURL mode "answered w x d"]
    show ?thesis by simp
  next
    case False
    with no poll_loop_Continue [OF no] show ?thesis by simp
  qed
qed

theorem status_success_condition_witness:
  "poll_pass (scripted_env ''key'' [(7, answer_ok (JObject [(''status'', JString ''success'')]))])
     2000000000 [] ''u/job/1'' ''u/job/1/result/text'' TEXT 1000000000 0 world0 =
   Continue \<lparr>now = 1000000007,
     sent = [\<lparr>sent_at = 1000000000, client_timeout = 2000000000,
              req = \<lparr>Method = ''GET'', URL = ''u/job/1'', Header = [], Form = []\<rparr>\<rparr>]\<rparr>"
proof -
  let ?e = "scripted_env ''key'' [(7, answer_ok (JObject [(''status'', JString ''success'')]))]"
  let ?x = "status_exchange 2000000000 [] ''u/job/1'' 1000000000 world0"
  let ?resp = "\<lparr>StatusCode = 200, Body = JsonText (JObject [(''status'', JString ''success'')])\<rparr>"
  have h1: "\<not> sint (2000000000 :: Duration) < time_Since 0 world0"
    by (simp add: time_Since_def world0_def maxDuration_def minDuration_def)
  have h2: "url_error ?e ''u/job/1'' = None"
    by (simp add: scripted_env_def)
  have h4: "network ?e (sent world0) ?x = (7, Inr ?resp)"
    by (simp add: scripted_env_def scripted_def world0_def answer_ok_def)
  have h5: "StatusCode ?resp = 200" by simp
  have h6: "Decode (Body ?resp) = Inr (map_of (rev [(''status'', JString ''success'')]))"
    by simp
  show ?thesis
    using status_success_condition [OF h1 h2 refl h4 h5 h6, of "''u/job/1/result/text''" TEXT]
    by (simp add: answered_def status_exchange_def get_request_def world0_def)
qed

text \<open>
  Claim C2. A pass first compares the time since the start of the loop with the timeout.
  When the time is greater, the pass and the loop return \<open>ErrTimeoutReached\<close> in the
  world as it was, so nothing has been sent. Otherwise the pass sleeps for the interval and
  only then sends the status request, which is the first exchange that the pass adds.
\<close>

theorem timeout_checked_first:
  "(sint timeout < time_Since start w \<longrightarrow>
      poll_pass e timeout headers statusURL resultURL mode checkInterval start w =
        Return (Inl ErrTimeoutReached) w \<and>
      poll_loop e timeout headers statusURL resultURL mode checkInterval start w =
        Some (Inl ErrTimeoutReached, w)) \<and>
   (\<not> sint timeout < time_Since start w \<longrightarrow> url_error e statusURL = None \<longrightarrow>
      (\<exists>xs. sent (pass_world
                (poll_pass e timeout headers statusURL resultURL mode checkInterval start w)) =
            sent w @ status_exchange timeout headers statusURL checkInterval w # xs) \<and>
      sent_at (status_exchange timeout headers statusURL checkInterval w) =
        now w + max 0 (sint checkInterval))"
proof (intro conjI impI)
  assume t: "sint timeout < time_Since start w"
  show "poll_pass e timeout headers statusURL resultURL mode checkInterval start w =
      Return (Inl ErrTimeoutReached) w"
    by (rule poll_pass_timeout [OF t])
  then show "poll_loop e timeout headers statusURL resultURL mode checkInterval start w =
      Some (Inl ErrTimeoutReached, w)"
    by (rule poll_loop_Return)
next
  let ?x = "status_exchange timeout headers statusURL checkInterval w"
  assume t: "\<not> sint timeout < time_Since start w" and u: "url_error e statusURL = None"
  obtain d answer where net: "network e (sent w) ?x = (d, answer)"
    by (cases "network e (sent w) ?x")
  note P = poll_pass_unfold [OF t u net, of resultURL mode]
  obtain ys where ys: "sent (pass_world (fetch_result e timeout headers resultURL mode
      (answered w ?x d))) = sent (answered w ?x d) @ ys"
    using fetch_result_sent by blast
  have "sent (pass_world
         (poll_pass e timeout headers statusURL resultURL mode checkInterval start w)) =
        sent w @ [?x] \<or>
        sent (pass_world
         (poll_pass e timeout headers statusURL resultURL mode checkInterval start w)) =
        sent w @ ?x # ys"
    by (simp add: P ys sent_answered Let_def split: sum.split)
  then show "\<exists>xs. sent (pass_world
         (poll_pass e timeout headers statusURL resultURL mode checkInterval start w)) =
        sent w @ ?x # xs"
    by blast
next
  show "sent_at (status_exchange timeout headers statusURL checkInterval w) =
      now w + max 0 (sint checkInterval)"
    by (simp add: status_exchange_def)
qed

theorem timeout_checked_first_witness:
  "getJobResult pending_env ''key'' ''u'' ''job1'' TEXT 2000000000 1000000000 world0 =
     Some (Inl ErrTimeoutReached,
       \<lparr>now = 2000000014,
        sent = [status_exchange 2000000000 (job_headers ''key'') (job_statusURL ''u'' ''job1'')
                  1000000000 world0,
                status_exchange 2000000000 (job_headers ''key'') (job_statusURL ''u'' ''job1'')
                  1000000000 \<lparr>now = 1000000007, sent = []\<rparr>]\<rparr>)"
proof -
  let ?h = "job_headers ''key''"
  let ?s = "job_statusURL ''u'' ''job1''"
  let ?r = "job_resultURL ''u'' ''job1'' TEXT"
  let ?x1 = "status_exchange 2000000000 ?h ?s 1000000000 world0"
  let ?x2 = "status_exchange 2000000000 ?h ?s 1000000000 \<lparr>now = 1000000007, sent = []\<rparr>"
  let ?w1 = "\<lparr>now = 1000000007, sent = [?x1]\<rparr>"
  let ?w2 = "\<lparr>now = 2000000014, sent = [?x1, ?x2]\<rparr>"
  have p1: "poll_pass pending_env 2000000000 ?h ?s ?r TEXT 1000000000 0 world0 = Continue ?w1"
    by (simp add: poll_pass_def pending_env_def world0_def time_Since_def time_Sleep_def
        maxDuration_def minDuration_def http_NewRequest_def client_Do_def answer_ok_def
        status_exchange_def get_request_def job_headers_def job_statusURL_def)
  have p2: "poll_pass pending_env 2000000000 ?h ?s ?r TEXT 1000000000 0 ?w1 = Continue ?w2"
    by (simp add: poll_pass_def pending_env_def world0_def time_Since_def time_Sleep_def
        maxDuration_def minDuration_def http_NewRequest_def client_Do_def answer_ok_def
        status_exchange_def get_request_def job_headers_def job_statusURL_def)
  have late: "sint (2000000000 :: Duration) < time_Since 0 ?w2"
    by (simp add: time_Since_def maxDuration_def minDuration_def)
  have n0: "now world0 = 0"
    by (simp add: world0_def)
  have "getJobResult pending_env ''key'' ''u'' ''job1'' TEXT 2000000000 1000000000 world0 =
      poll_loop pending_env 2000000000 ?h ?s ?r TEXT 1000000000 0 world0"
    by (simp only: getJobResult_poll_loop n0)
  also have "\<dots> = poll_loop pending_env 2000000000 ?h ?s ?r TEXT 1000000000 0 ?w1"
    by (rule poll_loop_Continue [OF p1])
  also have "\<dots> = poll_loop pending_env 2000000000 ?h ?s ?r TEXT 1000000000 0 ?w2"
    by (rule poll_loop_Continue [OF p2])
  also have "\<dots> = Some (Inl ErrTimeoutReached, ?w2)"
    using late timeout_checked_first [of 2000000000 0 ?w2 pending_env ?h ?s ?r TEXT 1000000000]
    by simp
  finally show ?thesis .
qed

text \<open>
  Claim C3, as stated: a status body that is malformed is ignored and the loop polls again.
  In this run the upload succeeds and the first status answer has code 200 and a body that
  is not JSON: \<open>Parse\<close> returns the decoder's error after two exchanges, although the
  next answers of the script would have completed the job.
\<close>

theorem malformed_status_counterexample:
  "map_option fst
     (Parse (scripted_env ''key'' script_bad_status) [1] MARKDOWN None None None None world0) =
     Some (Inl (DecodeError ''invalid character'')) \<and>
   map_option (length \<circ> sent \<circ> snd)
     (Parse (scripted_env ''key'' script_bad_status) [1] MARKDOWN None None None None world0) =
     Some 2"
  by (simp add: run_defs script_bad_status_def
      poll_loop.simps [of _ _ _ _ _ _ _ _ "\<lparr>now = n, sent = [a]\<rparr>" for n a])

text \<open>
  Claim C3, amended: during a status check a transport error ends the loop and is
  returned; an answer with a code other than 200, and an answer with code 200 whose body
  decodes to a map in which \<open>status\<close> is not the string \<open>SUCCESS\<close>, make the loop run
  its next pass; an answer with code 200 whose body cannot be decoded ends the loop, which
  returns the decoder's error.
\<close>

theorem status_check_outcomes:
  assumes "\<not> sint timeout < time_Since start w"
    and "url_error e statusURL = None"
    and "x = status_exchange timeout headers statusURL checkInterval w"
    and "network e (sent w) x = (d, answer)"
  shows "(\<forall>msg. answer = Inl msg \<longrightarrow>
            poll_loop e timeout headers statusURL resultURL mode checkInterval start w =
              Some (Inl (TransportError msg), answered w x d)) \<and>
         (\<forall>resp. answer = Inr resp \<longrightarrow> StatusCode resp \<noteq> 200 \<longrightarrow>
            poll_loop e timeout headers statusURL resultURL mode checkInterval start w =
              poll_loop e timeout headers statusURL resultURL mode checkInterval start
                (answered w x d)) \<and>
         (\<forall>resp statusResponse. answer = Inr resp \<longrightarrow> StatusCode resp = 200 \<longrightarrow>
            Decode (Body resp) = Inr statusResponse \<longrightarrow>
            statusResponse ''status'' \<noteq> Some (JString ''SUCCESS'') \<longrightarrow>
            poll_loop e timeout headers statusURL resultURL mode checkInterval start w =
              poll_loop e timeout headers statusURL resultURL mode checkInterval start
                (answered w x d)) \<and>
         (\<forall>resp err. answer = Inr resp \<longrightarrow> StatusCode resp = 200 \<longrightarrow>
            Decode (Body resp) = Inl err \<longrightarrow>
            poll_loop e timeout headers statusURL resultURL mode checkInterval start w =
              Some (Inl err, answered w x d) \<and> (\<exists>msg. err = DecodeError msg))"
proof -
  note P = poll_pass_unfold [OF assms(1,2) assms(4) [unfolded assms(3)], folded assms(3),
      of resultURL mode]
  show ?thesis
  proof (intro conjI allI impI)
    fix msg assume "answer = Inl msg"
    then have "poll_pass e timeout headers statusURL resultURL mode checkInterval start w =
        Return (Inl (TransportError msg)) (answered w x d)"
      by (simp add: P)
    then show "poll_loop e timeout headers statusURL resultURL mode checkInterval start w =
        Some (Inl (TransportError msg), answered w x d)"
      by (rule poll_loop_Return)
  next
    fix resp assume "answer = Inr resp" "StatusCode resp \<noteq> 200"
    then have "poll_pass e timeout headers statusURL resultURL mode checkInterval start w =
        Continue (answered w x d)"
      by (simp add: P)
    then show "poll_loop e timeout headers statusURL resultURL mode checkInterval start w =
        poll_loop e timeout headers statusURL resultURL mode checkInterval start (answered w x d)"
      by (rule poll_loop_Continue)
  next
    fix resp statusResponse
    assume "answer = Inr resp" "StatusCode resp = 200" "Decode (Body resp) = Inr statusResponse"
      "statusResponse ''status'' \<noteq> Some (JString ''SUCCESS'')"
    then have "poll_pass e timeout headers statusURL resultURL mode checkInterval start w =
        Continue (answered w x d)"
      by (simp add: P)
    then show "poll_loop e timeout headers statusURL resultURL mode checkInterval start w =
        poll_loop e timeout headers statusURL resultURL mode checkInterval start (answered w x d)"
      by (rule poll_loop_Continue)
  next
    fix resp err
    assume a: "answer = Inr resp" "StatusCode resp = 200" "Decode (Body resp) = Inl err"
    then have "poll_pass e timeout headers statusURL resultURL mode checkInterval start w =
        Return (Inl err) (answered w x d)"
      by (simp add: P)
    then show "poll_loop e timeout headers statusURL resultURL mode checkInterval start w =
        Some (Inl err, answered w x d)"
      by (rule poll_loop_Return)
    show "\<exists>msg. err = DecodeError msg"
      by (rule Decode_error [OF a(3)])
  qed
qed

theorem status_check_outcomes_witness:
  "poll_loop (scripted_env ''key'' [(7, answer_text ''invalid character'')]) 2000000000
     (job_headers ''key'') ''u/job/1'' ''u/job/1/result/text'' TEXT 1000000000 0 world0 =
   Some (Inl (DecodeError ''invalid character''),
     answered world0
       (status_exchange 2000000000 (job_headers ''key'') ''u/job/1'' 1000000000 world0) 7) \<and>
   poll_loop (scripted_env ''key'' [(7, Inl ''connection reset'')]) 2000000000
     (job_headers ''key'') ''u/job/1'' ''u/job/1/result/text'' TEXT 1000000000 0 world0 =
   Some (Inl (TransportError ''connection reset''),
     answered world0
       (status_exchange 2000000000 (job_headers ''key'') ''u/job/1'' 1000000000 world0) 7)"
proof -
  let ?x = "status_exchange 2000000000 (job_headers ''key'') ''u/job/1'' 1000000000 world0"
  let ?e1 = "scripted_env ''key'' [(7, answer_text ''invalid character'')]"
  let ?e2 = "scripted_env ''key'' [(7, Inl ''connection reset'')]"
  let ?resp = "\<lparr>StatusCode = 200, Body = NotJson ''invalid character''\<rparr>"
  have n1: "network ?e1 (sent world0) ?x = (7, Inr ?resp)"
    by (simp add: scripted_env_def scripted_def world0_def answer_text_def)
  have n2: "network ?e2 (sent world0) ?x = (7, Inl ''connection reset'')"
    by (simp add: scripted_env_def scripted_def world0_def)
  from status_check_outcomes [OF time_Since_world0 url_error_scripted refl n1,
      of "''u/job/1/result/text''" TEXT]
  have a: "poll_loop ?e1 2000000000 (job_headers ''key'') ''u/job/1'' ''u/job/1/result/text''
      TEXT 1000000000 0 world0 = Some (Inl (DecodeError ''invalid character''), answered world0 ?x 7)"
    by simp
  from status_check_outcomes [OF time_Since_world0 url_error_scripted refl n2,
      of "''u/job/1/result/text''" TEXT]
  have b: "poll_loop ?e2 2000000000 (job_headers ''key'') ''u/job/1'' ''u/job/1/result/text''
      TEXT 1000000000 0 world0 = Some (Inl (TransportError ''connection reset''), answered world0 ?x 7)"
    by simp
  from a b show ?thesis by (rule conjI)
qed

text \<open>
  Claim C6. After a status answer with \<open>SUCCESS\<close> the loop ends in the world after one
  more exchange, a \<open>GET\<close> of the result URL, which ends in the mode passed by the
  caller. An answer with a code other than 200 gives \<open>ErrParsingFailed\<close>; a decoded body
  without a string under the mode's name gives \<open>ErrParsingFailed\<close>; a decoded body with
  a string there gives that string.
\<close>

theorem result_fetch_outcomes:
  assumes "\<not> sint timeout < time_Since start w"
    and "url_error e statusURL = None"
    and "x = status_exchange timeout headers statusURL checkInterval w"
    and "network e (sent w) x = (d, Inr resp)"
    and "StatusCode resp = 200"
    and "Decode (Body resp) = Inr statusResponse"
    and "statusResponse ''status'' = Some (JString ''SUCCESS'')"
    and "resultURL = job_resultURL baseUrl jobID mode"
    and "url_error e resultURL = None"
    and "y = result_exchange timeout headers resultURL (answered w x d)"
    and "network e (sent w @ [x]) y = (d', answer)"
    and "w' = answered (answered w x d) y d'"
  shows "(\<exists>r. poll_loop e timeout headers statusURL resultURL mode checkInterval start w =
              Some (r, w')) \<and>
         sent w' = sent w @ [x, y] \<and>
         Method (req y) = ''GET'' \<and>
         URL (req y) = baseUrl @ ''/api/parsing/job/'' @ jobID @ ''/result/'' @ mode \<and>
         (\<forall>resp'. answer = Inr resp' \<longrightarrow> StatusCode resp' \<noteq> 200 \<longrightarrow>
            poll_loop e timeout headers statusURL resultURL mode checkInterval start w =
              Some (Inl ErrParsingFailed, w')) \<and>
         (\<forall>resp' resultResponse. answer = Inr resp' \<longrightarrow> StatusCode resp' = 200 \<longrightarrow>
            Decode (Body resp') = Inr resultResponse \<longrightarrow>
            (\<forall>s. resultResponse mode \<noteq> Some (JString s)) \<longrightarrow>
            poll_loop e timeout headers statusURL resultURL mode checkInterval start w =
              Some (Inl ErrParsingFailed, w')) \<and>
         (\<forall>resp' resultResponse s. answer = Inr resp' \<longrightarrow> StatusCode resp' = 200 \<longrightarrow>
            Decode (Body resp') = Inr resultResponse \<longrightarrow>
            resultResponse mode = Some (JString s) \<longrightarrow>
            poll_loop e timeout headers statusURL resultURL mode checkInterval start w =
              Some (Inr s, w'))"
proof -
  let ?w2 = "answered w x d"
  note P = poll_pass_unfold [OF assms(1,2) assms(4) [unfolded assms(3)], folded assms(3),
      of resultURL mode]
  have pass: "poll_pass e timeout headers statusURL resultURL mode checkInterval start w =
      fetch_result e timeout headers resultURL mode ?w2"
    by (simp add: P assms(5-7))
  have net: "network e (sent ?w2) (result_exchange timeout headers resultURL ?w2) = (d', answer)"
    using assms(11) by (simp only: sent_answered assms(10))
  note F = fetch_result_unfold [OF assms(9) net, of mode, folded assms(10), folded assms(12)]
  have loop: "poll_loop e timeout headers statusURL resultURL mode checkInterval start w =
      Some (r, w'')"
    if "fetch_result e timeout headers resultURL mode ?w2 = Return r w''" for r w''
    using poll_loop_Return [of e timeout headers statusURL resultURL mode checkInterval start w r w'']
      that pass by simp
  show ?thesis
  proof (intro conjI allI impI)
    obtain r w'' where r: "fetch_result e timeout headers resultURL mode ?w2 = Return r w''"
      using fetch_result_returns by blast
    have "w'' = w'"
      using r by (simp add: F Let_def split: sum.splits if_splits option.splits json.splits)
    with loop [OF r]
    show "\<exists>r. poll_loop e timeout headers statusURL resultURL mode checkInterval start w =
        Some (r, w')"
      by blast
  next
    show "sent w' = sent w @ [x, y]"
      by (simp add: assms(12) sent_answered)
  next
    show "Method (req y) = ''GET''"
      by (simp add: assms(10) result_exchange_def get_request_fields)
  next
    show "URL (req y) = baseUrl @ ''/api/parsing/job/'' @ jobID @ ''/result/'' @ mode"
      by (simp add: assms(10) result_exchange_def get_request_fields assms(8) job_resultURL_def)
  next
    fix resp' assume "answer = Inr resp'" "StatusCode resp' \<noteq> 200"
    then have "fetch_result e timeout headers resultURL mode ?w2 = Return (Inl ErrParsingFailed) w'"
      by (simp add: F)
    then show "poll_loop e timeout headers statusURL resultURL mode checkInterval start w =
        Some (Inl ErrParsingFailed, w')"
      by (rule loop)
  next
    fix resp' resultResponse
    assume a: "answer = Inr resp'" "StatusCode resp' = 200"
      "Decode (Body resp') = Inr resultResponse" "\<forall>s. resultResponse mode \<noteq> Some (JString s)"
    have "fetch_result e timeout headers resultURL mode ?w2 = Return (Inl ErrParsingFailed) w'"
      using a(4) by (cases "resultResponse mode" rule: string_assert.cases) (simp_all add: F a(1-3))
    then show "poll_loop e timeout headers statusURL resultURL mode checkInterval start w =
        Some (Inl ErrParsingFailed, w')"
      by (rule loop)
  next
    fix resp' resultResponse s
    assume a: "answer = Inr resp'" "StatusCode resp' = 200"
      "Decode (Body resp') = Inr resultResponse" "resultResponse mode = Some (JString s)"
    then have "fetch_result e timeout headers resultURL mode ?w2 = Return (Inr s) w'"
      by (simp add: F)
    then show "poll_loop e timeout headers statusURL resultURL mode checkInterval start w =
        Some (Inr s, w')"
      by (rule loop)
  qed
qed

theorem result_fetch_outcomes_witness:
  "poll_loop
     (scripted_env ''key''
        [(7, answer_ok (JObject [(''status'', JString ''SUCCESS'')])),
         (9, answer_ok (JObject [(''text'', JString ''hello'')]))])
     2000000000 (job_headers ''key'') (job_statusURL ''u'' ''job1'')
     (job_resultURL ''u'' ''job1'' TEXT) TEXT 1000000000 0 world0 =
   Some (Inr ''hello'',
     answered
       (answered world0
          (status_exchange 2000000000 (job_headers ''key'') (job_statusURL ''u'' ''job1'')
             1000000000 world0) 7)
       (result_exchange 2000000000 (job_headers ''key'') (job_resultURL ''u'' ''job1'' TEXT)
          (answered world0
             (status_exchange 2000000000 (job_headers ''key'') (job_statusURL ''u'' ''job1'')
                1000000000 world0) 7)) 9)"
proof -
  let ?e = "scripted_env ''key''
        [(7, answer_ok (JObject [(''status'', JString ''SUCCESS'')])),
         (9, answer_ok (JObject [(''text'', JString ''hello'')]))]"
  let ?h = "job_headers ''key''"
  let ?s = "job_statusURL ''u'' ''job1''"
  let ?r = "job_resultURL ''u'' ''job1'' TEXT"
  let ?x = "status_exchange 2000000000 ?h ?s 1000000000 world0"
  let ?y = "result_exchange 2000000000 ?h ?r (answered world0 ?x 7)"
  let ?resp = "\<lparr>StatusCode = 200, Body = JsonText (JObject [(''status'', JString ''SUCCESS'')])\<rparr>"
  let ?resp' = "\<lparr>StatusCode = 200, Body = JsonText (JObject [(''text'', JString ''hello'')])\<rparr>"
  have n1: "network ?e (sent world0) ?x = (7, Inr ?resp)"
    by (simp add: scripted_env_def scripted_def world0_def answer_ok_def)
  have n2: "network ?e (sent world0 @ [?x]) ?y = (9, Inr ?resp')"
    by (simp add: scripted_env_def scripted_def world0_def answer_ok_def)
  have c: "StatusCode ?resp = 200" by simp
  have d: "Decode (Body ?resp) = Inr (map_of (rev [(''status'', JString ''SUCCESS'')]))"
    by simp
  have s: "map_of (rev [(''status'', JString ''SUCCESS'')]) ''status'' = Some (JString ''SUCCESS'')"
    by simp
  from result_fetch_outcomes [OF time_Since_world0 url_error_scripted refl n1 c d s refl
      url_error_scripted refl n2 refl]
  show ?thesis
    by (simp add: TEXT_def)
qed

section \<open>Bodies that cannot be decoded\<close>

text \<open>
  Claim C4, as stated: a malformed or unexpected JSON shape in the body of the upload
  answer or of the result answer makes \<open>Parse\<close> return \<open>ErrParsingFailed\<close>. With an
  upload answer that is not JSON, and with a result answer that is a JSON array, \<open>Parse\<close>
  returns the decoder's error instead.
\<close>

theorem malformed_body_counterexample:
  "map_option fst
     (Parse (scripted_env ''key'' script_bad_upload) [1] MARKDOWN None None None None world0) =
     Some (Inl (DecodeError ''invalid character'')) \<and>
   map_option fst
     (Parse (scripted_env ''key'' script_bad_upload) [1] MARKDOWN None None None None world0) \<noteq>
     Some (Inl ErrParsingFailed) \<and>
   map_option fst
     (Parse (scripted_env ''key'' script_bad_result) [1] MARKDOWN None None None None world0) =
     Some (Inl (DecodeError
       ''json: cannot unmarshal into Go value of type map[string]interface {}'')) \<and>
   map_option fst
     (Parse (scripted_env ''key'' script_bad_result) [1] MARKDOWN None None None None world0) \<noteq>
     Some (Inl ErrParsingFailed)"
  by (simp add: run_defs script_bad_upload_def script_bad_result_def
      poll_loop.simps [of _ _ _ _ _ _ _ _ "\<lparr>now = n, sent = [a]\<rparr>" for n a])

text \<open>
  Claim C4, amended: at the upload stage and at the result stage, an answer with code 200
  whose body cannot be decoded into a map makes the run return the decoder's error, and an
  answer with code 200 whose body decodes to a map without a string under the expected
  field, \<open>id\<close> for the upload and the mode's name for the result, makes it return
  \<open>ErrParsingFailed\<close>.
\<close>

theorem body_shape_outcomes:
  "(file \<noteq> [] \<longrightarrow> resolve_apiKey e apiKeyOptional = Inr apiKey \<longrightarrow>
    url_error e (BASE_URL @ ''/api/parsing/upload'') = None \<longrightarrow>
    u = upload_exchange e file languageOptional apiKey
          (resolve_timeoutSeconds timeoutSecondsOptional) w \<longrightarrow>
    network e (sent w) u = (d, Inr resp) \<longrightarrow> StatusCode resp = 200 \<longrightarrow>
      (\<forall>err. Decode (Body resp) = Inl err \<longrightarrow>
         Parse e file mode apiKeyOptional languageOptional timeoutSecondsOptional
           checkIntervalSecondsOptional w = Some (Inl err, answered w u d) \<and>
         (\<exists>msg. err = DecodeError msg)) \<and>
      (\<forall>response. Decode (Body resp) = Inr response \<longrightarrow>
         (\<forall>jobID. response ''id'' \<noteq> Some (JString jobID)) \<longrightarrow>
         Parse e file mode apiKeyOptional languageOptional timeoutSecondsOptional
           checkIntervalSecondsOptional w = Some (Inl ErrParsingFailed, answered w u d))) \<and>
   (\<not> sint timeout < time_Since start v \<longrightarrow> url_error e statusURL = None \<longrightarrow>
    x = status_exchange timeout headers statusURL checkInterval v \<longrightarrow>
    network e (sent v) x = (d1, Inr resp1) \<longrightarrow> StatusCode resp1 = 200 \<longrightarrow>
    Decode (Body resp1) = Inr statusResponse \<longrightarrow>
    statusResponse ''status'' = Some (JString ''SUCCESS'') \<longrightarrow>
    url_error e resultURL = None \<longrightarrow>
    y = result_exchange timeout headers resultURL (answered v x d1) \<longrightarrow>
    network e (sent v @ [x]) y = (d2, Inr resp2) \<longrightarrow> StatusCode resp2 = 200 \<longrightarrow>
      (\<forall>err. Decode (Body resp2) = Inl err \<longrightarrow>
         poll_loop e timeout headers statusURL resultURL mode' checkInterval start v =
           Some (Inl err, answered (answered v x d1) y d2) \<and>
         (\<exists>msg. err = DecodeError msg)) \<and>
      (\<forall>resultResponse. Decode (Body resp2) = Inr resultResponse \<longrightarrow>
         (\<forall>s. resultResponse mode' \<noteq> Some (JString s)) \<longrightarrow>
         poll_loop e timeout headers statusURL resultURL mode' checkInterval start v =
           Some (Inl ErrParsingFailed, answered (answered v x d1) y d2)))"
proof (intro conjI impI allI)
  fix err
  assume a: "file \<noteq> []" "resolve_apiKey e apiKeyOptional = Inr apiKey"
    "url_error e (BASE_URL @ ''/api/parsing/upload'') = None"
    "u = upload_exchange e file languageOptional apiKey
          (resolve_timeoutSeconds timeoutSecondsOptional) w"
    "network e (sent w) u = (d, Inr resp)" "StatusCode resp = 200"
    and err: "Decode (Body resp) = Inl err"
  note P = Parse_after_upload [OF a(1-3) a(5) [unfolded a(4)], folded a(4)]
  show "Parse e file mode apiKeyOptional languageOptional timeoutSecondsOptional
      checkIntervalSecondsOptional w = Some (Inl err, answered w u d)"
    by (simp add: P a(6) err)
  show "\<exists>msg. err = DecodeError msg"
    by (rule Decode_error [OF err])
next
  fix response
  assume a: "file \<noteq> []" "resolve_apiKey e apiKeyOptional = Inr apiKey"
    "url_error e (BASE_URL @ ''/api/parsing/upload'') = None"
    "u = upload_exchange e file languageOptional apiKey
          (resolve_timeoutSeconds timeoutSecondsOptional) w"
    "network e (sent w) u = (d, Inr resp)" "StatusCode resp = 200"
    and r: "Decode (Body resp) = Inr response" "\<forall>jobID. response ''id'' \<noteq> Some (JString jobID)"
  note P = Parse_after_upload [OF a(1-3) a(5) [unfolded a(4)], folded a(4)]
  show "Parse e file mode apiKeyOptional languageOptional timeoutSecondsOptional
      checkIntervalSecondsOptional w = Some (Inl ErrParsingFailed, answered w u d)"
    using r(2) by (cases "response ''id''" rule: string_assert.cases) (simp_all add: P a(6) r(1))
next
  fix err
  assume a: "\<not> sint timeout < time_Since start v" "url_error e statusURL = None"
    "x = status_exchange timeout headers statusURL checkInterval v"
    "network e (sent v) x = (d1, Inr resp1)" "StatusCode resp1 = 200"
    "Decode (Body resp1) = Inr statusResponse"
    "statusResponse ''status'' = Some (JString ''SUCCESS'')"
    and b: "url_error e resultURL = None"
    "y = result_exchange timeout headers resultURL (answered v x d1)"
    "network e (sent v @ [x]) y = (d2, Inr resp2)" "StatusCode resp2 = 200"
    and err: "Decode (Body resp2) = Inl err"
  have net: "network e (sent (answered v x d1))
      (result_exchange timeout headers resultURL (answered v x d1)) = (d2, Inr resp2)"
    using b(3) by (simp only: sent_answered b(2))
  note F = fetch_result_unfold [OF b(1) net, of mode', folded b(2)]
  have "fetch_result e timeout headers resultURL mode' (answered v x d1) =
      Return (Inl err) (answered (answered v x d1) y d2)"
    by (simp add: F b(4) err)
  then show "poll_loop e timeout headers statusURL resultURL mode' checkInterval start v =
      Some (Inl err, answered (answered v x d1) y d2)"
    by (rule poll_loop_fetch [OF a])
  show "\<exists>msg. err = DecodeError msg"
    by (rule Decode_error [OF err])
next
  fix resultResponse
  assume a: "\<not> sint timeout < time_Since start v" "url_error e statusURL = None"
    "x = status_exchange timeout headers statusURL checkInterval v"
    "network e (sent v) x = (d1, Inr resp1)" "StatusCode resp1 = 200"
    "Decode (Body resp1) = Inr statusResponse"
    "statusResponse ''status'' = Some (JString ''SUCCESS'')"
    and b: "url_error e resultURL = None"
    "y = result_exchange timeout headers resultURL (answered v x d1)"
    "network e (sent v @ [x]) y = (d2, Inr resp2)" "StatusCode resp2 = 200"
    and r: "Decode (Body resp2) = Inr resultResponse"
    "\<forall>s. resultResponse mode' \<noteq> Some (JString s)"
  have net: "network e (sent (answered v x d1))
      (result_exchange timeout headers resultURL (answered v x d1)) = (d2, Inr resp2)"
    using b(3) by (simp only: sent_answered b(2))
  note F = fetch_result_unfold [OF b(1) net, of mode', folded b(2)]
  have "fetch_result e timeout headers resultURL mode' (answered v x d1) =
      Return (Inl ErrParsingFailed) (answered (answered v x d1) y d2)"
    using r(2)
    by (cases "resultResponse mode'" rule: string_assert.cases) (simp_all add: F b(4) r(1))
  then show "poll_loop e timeout headers statusURL resultURL mode' checkInterval start v =
      Some (Inl ErrParsingFailed, answered (answered v x d1) y d2)"
    by (rule poll_loop_fetch [OF a])
qed

theorem body_shape_outcomes_witness:
  "Parse (scripted_env ''key'' [(3, answer_text ''invalid character'')])
     [1] MARKDOWN None None None None world0 =
   Some (Inl (DecodeError ''invalid character''),
     answered world0
       (upload_exchange (scripted_env ''key'' [(3, answer_text ''invalid character'')])
          [1] None ''key'' (resolve_timeoutSeconds None) world0) 3) \<and>
   Parse (scripted_env ''key'' [(3, answer_ok (JObject [(''ID'', JString ''job1'')]))])
     [1] MARKDOWN None None None None world0 =
   Some (Inl ErrParsingFailed,
     answered world0
       (upload_exchange (scripted_env ''key'' [(3, answer_ok (JObject [(''ID'', JString ''job1'')]))])
          [1] None ''key'' (resolve_timeoutSeconds None) world0) 3)"
proof -
  let ?e1 = "scripted_env ''key'' [(3, answer_text ''invalid character'')]"
  let ?e2 = "scripted_env ''key'' [(3, answer_ok (JObject [(''ID'', JString ''job1'')]))]"
  let ?u1 = "upload_exchange ?e1 [1] None ''key'' (resolve_timeoutSeconds None) world0"
  let ?u2 = "upload_exchange ?e2 [1] None ''key'' (resolve_timeoutSeconds None) world0"
  let ?r1 = "\<lparr>StatusCode = 200, Body = NotJson ''invalid character''\<rparr>"
  let ?r2 = "\<lparr>StatusCode = 200, Body = JsonText (JObject [(''ID'', JString ''job1'')])\<rparr>"
  have h1: "[1] \<noteq> ([] :: bytes)" by simp
  have k1: "resolve_apiKey ?e1 None = Inr ''key''"
    by (simp add: resolve_apiKey_def scripted_env_def)
  have k2: "resolve_apiKey ?e2 None = Inr ''key''"
    by (simp add: resolve_apiKey_def scripted_env_def)
  have n1: "network ?e1 (sent world0) ?u1 = (3, Inr ?r1)"
    by (simp add: scripted_env_def scripted_def world0_def answer_text_def)
  have n2: "network ?e2 (sent world0) ?u2 = (3, Inr ?r2)"
    by (simp add: scripted_env_def scripted_def world0_def answer_ok_def)
  have d1: "Decode (Body ?r1) = Inl (DecodeError ''invalid character'')"
    by simp
  have d2: "Decode (Body ?r2) = Inr (map_of (rev [(''ID'', JString ''job1'')]))"
    by simp
  have i2: "\<forall>jobID. map_of (rev [(''ID'', JString ''job1'')]) ''id'' \<noteq> Some (JString jobID)"
    by simp
  from body_shape_outcomes [of "[1]" ?e1 None "''key''" ?u1 None None world0 3 ?r1 MARKDOWN None]
    h1 k1 url_error_scripted n1 d1
  have a: "Parse ?e1 [1] MARKDOWN None None None None world0 =
      Some (Inl (DecodeError ''invalid character''), answered world0 ?u1 3)"
    by simp
  from body_shape_outcomes [of "[1]" ?e2 None "''key''" ?u2 None None world0 3 ?r2 MARKDOWN None]
    h1 k2 url_error_scripted n2 d2 i2
  have b: "Parse ?e2 [1] MARKDOWN None None None None world0 =
      Some (Inl ErrParsingFailed, answered world0 ?u2 3)"
    by simp
  from a b show ?thesis by (rule conjI)
qed

end
